theory Spec2Isabelle
  imports Complex_Main
begin

section \<open>JavaScript numbers\<close>

text \<open>
  Every \<^verbatim>\<open>number\<close> of the sources is a JavaScript number, a binary64 value. The
  model keeps the special values of the language (\<^verbatim>\<open>NaN\<close>, \<^verbatim>\<open>Infinity\<close>,
  \<^verbatim>\<open>-Infinity\<close>) apart from the finite ones, since the sources reach them (a division
  by zero does not throw in JavaScript). A finite number carries the real it stands for;
  the sign of zero is left out (a zero divisor is taken as positive zero).

  The operations \<open>js_add\<close>, \<open>js_sub\<close>, \<open>js_mul\<close> and \<open>js_div\<close> of this section return the
  exact result of the operation on finite numbers. The next section rounds that result to
  binary64 (\<open>d_add\<close>, \<open>d_sub\<close>, \<open>d_mul\<close>, \<open>d_div\<close>), which is what the machine returns.
  The mock device, \<^verbatim>\<open>twoPoint\<close> and \<^verbatim>\<open>applyCounts\<close> are written with the exact
  operations: what is proved of them names the value of one source expression. The
  coincidence correction, \<^verbatim>\<open>multiPoint\<close> and the voltage conversions are written with the
  rounded operations, since what is proved of them compares the result of several
  operations with a formula over the reals.
\<close>

datatype jsnum = Fin real | PInf | NInf | NaN

fun isNaN :: "jsnum \<Rightarrow> bool" where
  "isNaN NaN = True"
| "isNaN _ = False"

text \<open>Truthiness, as \<^verbatim>\<open>||\<close> and \<^verbatim>\<open>if\<close> test it: zero and \<^verbatim>\<open>NaN\<close> are falsy.\<close>

fun truthy :: "jsnum \<Rightarrow> bool" where
  "truthy (Fin a) = (a \<noteq> 0)"
| "truthy NaN = False"
| "truthy _ = True"

fun js_neg :: "jsnum \<Rightarrow> jsnum" where
  "js_neg (Fin a) = Fin (- a)"
| "js_neg PInf = NInf"
| "js_neg NInf = PInf"
| "js_neg NaN = NaN"

fun js_add :: "jsnum \<Rightarrow> jsnum \<Rightarrow> jsnum" where
  "js_add NaN _ = NaN"
| "js_add _ NaN = NaN"
| "js_add (Fin a) (Fin b) = Fin (a + b)"
| "js_add PInf NInf = NaN"
| "js_add NInf PInf = NaN"
| "js_add PInf _ = PInf"
| "js_add _ PInf = PInf"
| "js_add NInf _ = NInf"
| "js_add _ NInf = NInf"

definition js_sub :: "jsnum \<Rightarrow> jsnum \<Rightarrow> jsnum" where
  "js_sub a b = js_add a (js_neg b)"

fun js_mul :: "jsnum \<Rightarrow> jsnum \<Rightarrow> jsnum" where
  "js_mul NaN _ = NaN"
| "js_mul _ NaN = NaN"
| "js_mul (Fin a) (Fin b) = Fin (a * b)"
| "js_mul (Fin a) PInf = (if a = 0 then NaN else if 0 < a then PInf else NInf)"
| "js_mul (Fin a) NInf = (if a = 0 then NaN else if 0 < a then NInf else PInf)"
| "js_mul PInf (Fin b) = (if b = 0 then NaN else if 0 < b then PInf else NInf)"
| "js_mul NInf (Fin b) = (if b = 0 then NaN else if 0 < b then NInf else PInf)"
| "js_mul PInf PInf = PInf"
| "js_mul PInf NInf = NInf"
| "js_mul NInf PInf = NInf"
| "js_mul NInf NInf = PInf"

fun js_div :: "jsnum \<Rightarrow> jsnum \<Rightarrow> jsnum" where
  "js_div NaN _ = NaN"
| "js_div _ NaN = NaN"
| "js_div (Fin a) (Fin b) =
     (if b = 0 then (if a = 0 then NaN else if 0 < a then PInf else NInf)
      else Fin (a / b))"
| "js_div (Fin a) _ = Fin 0"
| "js_div PInf (Fin b) = (if 0 \<le> b then PInf else NInf)"
| "js_div NInf (Fin b) = (if 0 \<le> b then NInf else PInf)"
| "js_div _ _ = NaN"

text \<open>The comparison \<^verbatim>\<open>a < b\<close>: false as soon as one side is \<^verbatim>\<open>NaN\<close>.\<close>

fun js_lt :: "jsnum \<Rightarrow> jsnum \<Rightarrow> bool" where
  "js_lt NaN _ = False"
| "js_lt _ NaN = False"
| "js_lt (Fin a) (Fin b) = (a < b)"
| "js_lt (Fin a) PInf = True"
| "js_lt NInf (Fin b) = True"
| "js_lt NInf PInf = True"
| "js_lt _ _ = False"

definition js_gt :: "jsnum \<Rightarrow> jsnum \<Rightarrow> bool" where
  "js_gt a b = js_lt b a"

definition js_le :: "jsnum \<Rightarrow> jsnum \<Rightarrow> bool" where
  "js_le a b = (\<not> isNaN a \<and> \<not> isNaN b \<and> \<not> js_lt b a)"

text \<open>\<^verbatim>\<open>Math.max\<close> and \<^verbatim>\<open>Math.min\<close> of two arguments return \<^verbatim>\<open>NaN\<close> if one of them is.\<close>

definition Math_max :: "jsnum \<Rightarrow> jsnum \<Rightarrow> jsnum" where
  "Math_max a b = (if isNaN a \<or> isNaN b then NaN else if js_lt a b then b else a)"

definition Math_min :: "jsnum \<Rightarrow> jsnum \<Rightarrow> jsnum" where
  "Math_min a b = (if isNaN a \<or> isNaN b then NaN else if js_lt b a then b else a)"

fun Math_sqrt :: "jsnum \<Rightarrow> jsnum" where
  "Math_sqrt (Fin a) = (if a < 0 then NaN else Fin (sqrt a))"
| "Math_sqrt PInf = PInf"
| "Math_sqrt _ = NaN"

text \<open>
  \<^verbatim>\<open>Math.round\<close> rounds to the nearest integer, a half going up; the integer it
  returns is a binary64 number again.
\<close>

fun Math_round :: "jsnum \<Rightarrow> jsnum" where
  "Math_round (Fin a) = Fin (of_int \<lfloor>a + 1 / 2\<rfloor>)"
| "Math_round x = x"

section \<open>Rounding to binary64\<close>

text \<open>
  A binary64 number other than zero is \<open>n * 2 ^ (e - 52)\<close> for an integer \<open>n\<close> of at most
  53 bits and an exponent \<open>e\<close> from -1022 to 1023. \<open>expo x\<close> is the exponent of the binade
  of \<open>x\<close> (the subnormal numbers share the exponent -1022), \<open>ulp x\<close> the distance
  between neighbouring numbers there, and \<open>rne\<close> rounds to the nearest integer, a tie
  going to the even one. \<open>fl x\<close> is then the binary64 number nearest to the real \<open>x\<close>;
  a result that reaches \<open>2 ^ 1024\<close> is an infinity.
\<close>

definition expo :: "real \<Rightarrow> int" where
  "expo x = max \<lfloor>log 2 \<bar>x\<bar>\<rfloor> (- 1022)"

definition ulp :: "real \<Rightarrow> real" where
  "ulp x = 2 powi (expo x - 52)"

definition rne :: "real \<Rightarrow> int" where
  "rne y =
     (let n = \<lfloor>y\<rfloor>; f = y - of_int n
      in if f < 1 / 2 then n else if 1 / 2 < f then n + 1
         else if even n then n else n + 1)"

definition fl :: "real \<Rightarrow> jsnum" where
  "fl x =
     (if x = 0 then Fin 0
      else
        let r = of_int (rne (x / ulp x)) * ulp x
        in if 2 ^ 1024 \<le> \<bar>r\<bar> then (if 0 < x then PInf else NInf) else Fin r)"

text \<open>An arithmetic operation of the machine rounds the exact result.\<close>

fun rnd :: "jsnum \<Rightarrow> jsnum" where
  "rnd (Fin x) = fl x"
| "rnd v = v"

definition d_add :: "jsnum \<Rightarrow> jsnum \<Rightarrow> jsnum" where
  "d_add a b = rnd (js_add a b)"

definition d_sub :: "jsnum \<Rightarrow> jsnum \<Rightarrow> jsnum" where
  "d_sub a b = rnd (js_sub a b)"

definition d_mul :: "jsnum \<Rightarrow> jsnum \<Rightarrow> jsnum" where
  "d_mul a b = rnd (js_mul a b)"

definition d_div :: "jsnum \<Rightarrow> jsnum \<Rightarrow> jsnum" where
  "d_div a b = rnd (js_div a b)"

section \<open>Coincidence analysis (analysis module)\<close>

definition accidentalRate :: "jsnum \<Rightarrow> jsnum \<Rightarrow> jsnum \<Rightarrow> jsnum" where
  "accidentalRate rate1 rate2 coincidenceWindow =
     d_mul (d_mul (d_mul (Fin 2) rate1) rate2) coincidenceWindow"

definition trueRate :: "jsnum \<Rightarrow> jsnum \<Rightarrow> jsnum \<Rightarrow> jsnum \<Rightarrow> jsnum" where
  "trueRate measuredRate rate1 rate2 coincidenceWindow =
     (let accidental = accidentalRate rate1 rate2 coincidenceWindow
      in Math_max (Fin 0) (d_sub measuredRate accidental))"

section \<open>Values and errors\<close>

text \<open>
  What the sources throw. \<open>Error msg\<close> is \<^verbatim>\<open>new Error(msg)\<close>; \<open>Error_Invalid_channel c\<close>
  is the \<^verbatim>\<open>Error\<close> whose message is the template \<^verbatim>\<open>Invalid channel: ${channel}\<close>;
  \<open>ValidationError field value message\<close> is the class of the validation module.
\<close>

datatype jsvalue =
    JNumber jsnum
  | JString string
  | JBoolean bool
  | JNull
  | JUndefined
  | JObject

datatype error =
    Error string
  | Error_Invalid_channel jsnum
  | ValidationError string jsvalue string

text \<open>The name of the class of what is thrown.\<close>

fun class_name :: "error \<Rightarrow> string" where
  "class_name (Error msg) = ''Error''"
| "class_name (Error_Invalid_channel c) = ''Error''"
| "class_name (ValidationError field v msg) = ''ValidationError''"

section \<open>Calibration (calibration module)\<close>

text \<open>
  A profile keeps one object per kind of coefficient, keyed by the channel. The date and
  the free-form metadata of the class play no part in the arithmetic and are left out.
\<close>

record CalibrationProfile =
  name :: string
  description :: string
  voltages :: "jsnum \<rightharpoonup> jsnum"
  thresholds :: "jsnum \<rightharpoonup> jsnum"
  gains :: "jsnum \<rightharpoonup> jsnum"
  offsets :: "jsnum \<rightharpoonup> jsnum"

text \<open>\<^verbatim>\<open>obj[key] || null\<close>: a missing entry and a falsy one both give \<^verbatim>\<open>null\<close>.\<close>

definition or_null :: "jsnum option \<Rightarrow> jsnum option" where
  "or_null v = (case v of None \<Rightarrow> None | Some x \<Rightarrow> if truthy x then Some x else None)"

text \<open>\<^verbatim>\<open>obj[key] || d\<close>: a missing entry and a falsy one both give the default.\<close>

definition or_default :: "jsnum option \<Rightarrow> jsnum \<Rightarrow> jsnum" where
  "or_default v d = (case v of None \<Rightarrow> d | Some x \<Rightarrow> if truthy x then x else d)"

definition setGain :: "CalibrationProfile \<Rightarrow> jsnum \<Rightarrow> jsnum \<Rightarrow> error + CalibrationProfile" where
  "setGain p channel gain =
     (if js_lt channel (Fin 0) \<or> js_gt channel (Fin 7)
      then Inl (Error ''Channel must be between 0 and 7'')
      else Inr (p\<lparr>gains := (gains p)(channel \<mapsto> gain)\<rparr>))"

definition getGain :: "CalibrationProfile \<Rightarrow> jsnum \<Rightarrow> jsnum option" where
  "getGain p channel = or_null (gains p channel)"

definition setOffset :: "CalibrationProfile \<Rightarrow> jsnum \<Rightarrow> jsnum \<Rightarrow> error + CalibrationProfile" where
  "setOffset p channel offset =
     (if js_lt channel (Fin 0) \<or> js_gt channel (Fin 7)
      then Inl (Error ''Channel must be between 0 and 7'')
      else Inr (p\<lparr>offsets := (offsets p)(channel \<mapsto> offset)\<rparr>))"

definition getOffset :: "CalibrationProfile \<Rightarrow> jsnum \<Rightarrow> jsnum option" where
  "getOffset p channel = or_null (offsets p channel)"

definition applyCounts :: "CalibrationProfile \<Rightarrow> jsnum \<Rightarrow> jsnum \<Rightarrow> jsnum" where
  "applyCounts p channel rawCount =
     (let gain = or_default (gains p channel) (Fin 1);
          offset = or_default (offsets p channel) (Fin 0)
      in js_add (js_mul rawCount gain) offset)"

text \<open>The profile a constructor call without coefficients leaves.\<close>

definition new_profile :: "string \<Rightarrow> CalibrationProfile" where
  "new_profile n =
     \<lparr>name = n, description = [], voltages = Map.empty, thresholds = Map.empty,
      gains = Map.empty, offsets = Map.empty\<rparr>"

subsection \<open>Fitting\<close>

record point =
  raw :: jsnum
  actual :: jsnum

record coefficients =
  gain :: jsnum
  offset :: jsnum

definition twoPoint :: "point \<Rightarrow> point \<Rightarrow> coefficients" where
  "twoPoint point1 point2 =
     (let g = js_div (js_sub (actual point2) (actual point1))
                     (js_sub (raw point2) (raw point1));
          off = js_sub (actual point1) (js_mul g (raw point1))
      in \<lparr>gain = g, offset = off\<rparr>)"

text \<open>The four running sums of the \<^verbatim>\<open>forEach\<close> loop, in the order sumX, sumY, sumXY, sumXX.\<close>

type_synonym running_sums = "jsnum \<times> jsnum \<times> jsnum \<times> jsnum"

fun accumulate :: "point list \<Rightarrow> running_sums \<Rightarrow> running_sums" where
  "accumulate [] s = s"
| "accumulate (p # ps) (sumX, sumY, sumXY, sumXX) =
     accumulate ps
       (d_add sumX (raw p), d_add sumY (actual p),
        d_add sumXY (d_mul (raw p) (actual p)),
        d_add sumXX (d_mul (raw p) (raw p)))"

definition multiPoint :: "point list \<Rightarrow> error + coefficients" where
  "multiPoint points =
     (if length points < 2 then Inl (Error ''At least 2 calibration points required'')
      else
        let n = Fin (real (length points));
            (sumX, sumY, sumXY, sumXX) = accumulate points (Fin 0, Fin 0, Fin 0, Fin 0);
            g = d_div (d_sub (d_mul n sumXY) (d_mul sumX sumY))
                      (d_sub (d_mul n sumXX) (d_mul sumX sumX));
            off = d_div (d_sub sumY (d_mul g sumX)) n
        in Inr \<lparr>gain = g, offset = off\<rparr>)"

section \<open>Validation (validation module)\<close>

text \<open>The literal \<^verbatim>\<open>4.08\<close> denotes the binary64 number nearest to 4.08.\<close>

definition VOLTAGE_MIN :: jsnum where
  "VOLTAGE_MIN = Fin 0"

definition VOLTAGE_MAX :: jsnum where
  "VOLTAGE_MAX = fl 4.08"

text \<open>
  The value of \<open>VOLTAGE_MAX\<close> as a fraction: 4593671619917906 / 2 ^ 50, a little above
  4.08 (lemma \<open>VOLTAGE_MAX_value\<close> below).
\<close>

definition vmax :: real where
  "vmax = 2296835809958953 / 562949953421312"

definition BYTE_MIN :: jsnum where
  "BYTE_MIN = Fin 0"

definition BYTE_MAX :: jsnum where
  "BYTE_MAX = Fin 255"

text \<open>
  \<^verbatim>\<open>validateByte\<close> returns nothing or throws. Its first test,
  \<^verbatim>\<open>typeof byte !== 'number' || isNaN(byte)\<close>, catches every value that is not a number,
  and \<^verbatim>\<open>NaN\<close>.
\<close>

fun validateByte :: "jsvalue \<Rightarrow> error + unit" where
  "validateByte (JNumber byte) =
     (if isNaN byte
      then Inl (ValidationError ''byte'' (JNumber byte) ''must be a number between 0 and 255'')
      else if js_lt byte BYTE_MIN \<or> js_gt byte BYTE_MAX
      then Inl (ValidationError ''byte'' (JNumber byte) ''0-255'')
      else Inr ())"
| "validateByte v =
     Inl (ValidationError ''byte'' v ''must be a number between 0 and 255'')"

definition clamp :: "jsnum \<Rightarrow> jsnum \<Rightarrow> jsnum \<Rightarrow> jsnum" where
  "clamp v mn mx = Math_max mn (Math_min mx v)"

definition clampVoltage :: "jsnum \<Rightarrow> jsnum" where
  "clampVoltage voltage = clamp voltage VOLTAGE_MIN VOLTAGE_MAX"

definition voltageToByte :: "jsnum \<Rightarrow> jsnum" where
  "voltageToByte voltage =
     (let clamped = clampVoltage voltage
      in Math_round (d_mul (d_div clamped VOLTAGE_MAX) BYTE_MAX))"

text \<open>
  The number a value stands for in the division of \<^verbatim>\<open>byteToVoltage\<close>. The division is
  reached by numbers only, \<^verbatim>\<open>validateByte\<close> having thrown for everything else.
\<close>

fun number_of :: "jsvalue \<Rightarrow> jsnum" where
  "number_of (JNumber n) = n"
| "number_of v = NaN"

definition byteToVoltage :: "jsvalue \<Rightarrow> error + jsnum" where
  "byteToVoltage byte =
     (case validateByte byte of
        Inl e \<Rightarrow> Inl e
      | Inr u \<Rightarrow> Inr (d_mul (d_div (number_of byte) BYTE_MAX) VOLTAGE_MAX))"

section \<open>The mock device (MockCD48)\<close>

text \<open>
  The state of the class. The timer handle of the auto-increment is left out: what the
  timer does to the counters while a measurement waits is given to the measurement as
  the counters it finds when its wait ends.
\<close>

record MockCD48 =
  connected :: bool
  counts :: "jsnum list"
  coincidenceCounts :: jsnum
  version :: string
  autoIncrement :: bool
  incrementRate :: jsnum
  commandDelay :: jsnum
  failConnection :: bool
  failCommands :: bool
  disconnectAfter :: "jsnum option"
  commandCount :: jsnum

record CountData =
  cd_counts :: "jsnum list"
  cd_coincidenceCounts :: jsnum
  cd_timestamp :: jsnum

record SettingsData =
  sd_baud :: jsnum
  sd_timeout :: jsnum
  sd_commandDelay :: jsnum
  sd_firmware :: string

record RateMeasurement =
  rm_channel :: jsnum
  rm_duration :: jsnum
  rm_counts :: jsnum
  rm_rate :: jsnum
  rm_uncertainty :: jsnum

record CoincidenceRateMeasurement =
  cm_duration :: jsnum
  cm_counts :: jsnum
  cm_rate :: jsnum
  cm_uncertainty :: jsnum

text \<open>
  Every method returns its result, or the error it throws, together with the state it
  leaves. \<^verbatim>\<open>_executeCommand\<close> throws after it has changed the state when the device
  disconnects.
\<close>

definition executeCommand :: "MockCD48 \<Rightarrow> (error + unit) \<times> MockCD48" where
  "executeCommand dev =
     (if \<not> connected dev then (Inl (Error ''Device not connected''), dev)
      else if failCommands dev then (Inl (Error ''Mock command failed''), dev)
      else
        let dev1 = dev\<lparr>commandCount := js_add (commandCount dev) (Fin 1)\<rparr>
        in case disconnectAfter dev1 of
             None \<Rightarrow> (Inr (), dev1)
           | Some n \<Rightarrow>
               if js_gt (commandCount dev1) n
               then (Inl (Error ''Device disconnected unexpectedly''), dev1\<lparr>connected := False\<rparr>)
               else (Inr (), dev1))"

text \<open>
  \<^verbatim>\<open>this.counts[channel] ?? 0\<close>: the element when the channel is an index of the array,
  zero when the read gives \<^verbatim>\<open>undefined\<close>.
\<close>

fun count_at :: "jsnum list \<Rightarrow> jsnum \<Rightarrow> jsnum" where
  "count_at cs (Fin r) =
     (if 0 \<le> r \<and> r = of_int \<lfloor>r\<rfloor> \<and> nat \<lfloor>r\<rfloor> < length cs then cs ! nat \<lfloor>r\<rfloor> else Fin 0)"
| "count_at cs _ = Fin 0"

definition getVersion :: "MockCD48 \<Rightarrow> (error + string) \<times> MockCD48" where
  "getVersion dev =
     (case executeCommand dev of
        (Inl e, dev') \<Rightarrow> (Inl e, dev')
      | (Inr u, dev') \<Rightarrow> (Inr (version dev'), dev'))"

text \<open>\<open>now\<close> is what \<^verbatim>\<open>Date.now()\<close> returns.\<close>

definition getCounts :: "MockCD48 \<Rightarrow> jsnum \<Rightarrow> (error + CountData) \<times> MockCD48" where
  "getCounts dev now =
     (case executeCommand dev of
        (Inl e, dev') \<Rightarrow> (Inl e, dev')
      | (Inr u, dev') \<Rightarrow>
          (Inr \<lparr>cd_counts = counts dev', cd_coincidenceCounts = coincidenceCounts dev',
                cd_timestamp = now\<rparr>, dev'))"

definition getSettings :: "MockCD48 \<Rightarrow> (error + SettingsData) \<times> MockCD48" where
  "getSettings dev =
     (case executeCommand dev of
        (Inl e, dev') \<Rightarrow> (Inl e, dev')
      | (Inr u, dev') \<Rightarrow>
          (Inr \<lparr>sd_baud = Fin 9600, sd_timeout = Fin 1000, sd_commandDelay = Fin 50,
                sd_firmware = version dev'\<rparr>, dev'))"

definition clearCounts :: "MockCD48 \<Rightarrow> (error + bool) \<times> MockCD48" where
  "clearCounts dev =
     (case executeCommand dev of
        (Inl e, dev') \<Rightarrow> (Inl e, dev')
      | (Inr u, dev') \<Rightarrow>
          (Inr True, dev'\<lparr>counts := replicate 8 (Fin 0), coincidenceCounts := Fin 0\<rparr>))"

text \<open>
  \<open>counts_after\<close> is the array \<^verbatim>\<open>this.counts\<close> when the wait of \<open>duration\<close> seconds
  ends: the second snapshot is read from it.
\<close>

definition measureRate ::
  "MockCD48 \<Rightarrow> jsnum list \<Rightarrow> jsnum \<Rightarrow> jsnum \<Rightarrow> (error + RateMeasurement) \<times> MockCD48" where
  "measureRate dev counts_after channel duration =
     (case executeCommand dev of
        (Inl e, dev') \<Rightarrow> (Inl e, dev')
      | (Inr u, dev') \<Rightarrow>
          if js_lt channel (Fin 0) \<or> js_gt channel (Fin 7)
          then (Inl (Error_Invalid_channel channel), dev')
          else
            let startCounts = count_at (counts dev') channel;
                endCounts = count_at counts_after channel;
                totalCounts = js_sub endCounts startCounts;
                rate = js_div totalCounts duration
            in (Inr \<lparr>rm_channel = channel, rm_duration = duration, rm_counts = totalCounts,
                      rm_rate = rate,
                      rm_uncertainty = js_div (Math_sqrt (Math_max (Fin 0) totalCounts)) duration\<rparr>,
                dev'\<lparr>counts := counts_after\<rparr>))"

text \<open>
  \<open>options_duration\<close> is the field \<^verbatim>\<open>options.duration\<close>, absent or a number;
  \<open>coincidence_after\<close> is \<^verbatim>\<open>this.coincidenceCounts\<close> when the wait ends.
\<close>

definition measureCoincidenceRate ::
  "MockCD48 \<Rightarrow> jsnum \<Rightarrow> jsnum option \<Rightarrow> (error + CoincidenceRateMeasurement) \<times> MockCD48" where
  "measureCoincidenceRate dev coincidence_after options_duration =
     (case executeCommand dev of
        (Inl e, dev') \<Rightarrow> (Inl e, dev')
      | (Inr u, dev') \<Rightarrow>
          let duration = (case options_duration of None \<Rightarrow> Fin 1 | Some d \<Rightarrow> d);
              startCounts = coincidenceCounts dev';
              endCounts = coincidence_after;
              totalCounts = js_sub endCounts startCounts;
              rate = js_div totalCounts duration
          in (Inr \<lparr>cm_duration = duration, cm_counts = totalCounts, cm_rate = rate,
                    cm_uncertainty = js_div (Math_sqrt (Math_max (Fin 0) totalCounts)) duration\<rparr>,
              dev'\<lparr>coincidenceCounts := coincidence_after\<rparr>))"

definition setRepeat :: "MockCD48 \<Rightarrow> jsnum \<Rightarrow> (error + bool) \<times> MockCD48" where
  "setRepeat dev intervalMs =
     (case executeCommand dev of
        (Inl e, dev') \<Rightarrow> (Inl e, dev')
      | (Inr u, dev') \<Rightarrow> (Inr True, dev'))"

definition toggleRepeat :: "MockCD48 \<Rightarrow> (error + bool) \<times> MockCD48" where
  "toggleRepeat dev =
     (case executeCommand dev of
        (Inl e, dev') \<Rightarrow> (Inl e, dev')
      | (Inr u, dev') \<Rightarrow> (Inr True, dev'))"

text \<open>
  The commands of the class, one constructor for each method that talks to the device,
  with its arguments and what the environment supplies to it.
\<close>

datatype command =
    GetVersion
  | GetCounts jsnum
  | GetSettings
  | ClearCounts
  | MeasureRate "jsnum list" jsnum jsnum
  | MeasureCoincidenceRate jsnum "jsnum option"
  | SetRepeat jsnum
  | ToggleRepeat

datatype response =
    Version string
  | Counts CountData
  | Settings SettingsData
  | Done bool
  | Rate RateMeasurement
  | CoincidenceRate CoincidenceRateMeasurement

definition tagged :: "('a \<Rightarrow> response) \<Rightarrow> (error + 'a) \<times> MockCD48 \<Rightarrow> (error + response) \<times> MockCD48" where
  "tagged tag r = (case r of (Inl e, dev') \<Rightarrow> (Inl e, dev') | (Inr x, dev') \<Rightarrow> (Inr (tag x), dev'))"

fun invoke :: "MockCD48 \<Rightarrow> command \<Rightarrow> (error + response) \<times> MockCD48" where
  "invoke dev GetVersion = tagged Version (getVersion dev)"
| "invoke dev (GetCounts now) = tagged Counts (getCounts dev now)"
| "invoke dev GetSettings = tagged Settings (getSettings dev)"
| "invoke dev ClearCounts = tagged Done (clearCounts dev)"
| "invoke dev (MeasureRate counts_after channel duration) =
     tagged Rate (measureRate dev counts_after channel duration)"
| "invoke dev (MeasureCoincidenceRate coincidence_after options_duration) =
     tagged CoincidenceRate (measureCoincidenceRate dev coincidence_after options_duration)"
| "invoke dev (SetRepeat intervalMs) = tagged Done (setRepeat dev intervalMs)"
| "invoke dev ToggleRepeat = tagged Done (toggleRepeat dev)"

text \<open>The device a constructor call without options leaves, and the same once connected.\<close>

definition new_device :: MockCD48 where
  "new_device =
     \<lparr>connected = False, counts = replicate 8 (Fin 0), coincidenceCounts = Fin 0,
      version = ''Mock v1.0.0'', autoIncrement = True, incrementRate = Fin 10,
      commandDelay = Fin 10, failConnection = False, failCommands = False,
      disconnectAfter = None, commandCount = Fin 0\<rparr>"

definition connect :: "MockCD48 \<Rightarrow> (error + bool) \<times> MockCD48" where
  "connect dev =
     (if failConnection dev then (Inl (Error ''Mock connection failed''), dev)
      else (Inr True, dev\<lparr>connected := True, commandCount := Fin 0\<rparr>))"

definition setCounts :: "MockCD48 \<Rightarrow> jsnum list \<Rightarrow> error + MockCD48" where
  "setCounts dev cs =
     (if length cs \<noteq> 8 then Inl (Error ''Must provide 8 count values'')
      else Inr (dev\<lparr>counts := cs\<rparr>))"

section \<open>The response parser\<close>

text \<open>
  The driver whose parser reads the count reply is not among the sources at hand; only
  its unit test is, which splits the reply \<^verbatim>\<open>"100 200 300 400 500 600 700 800 0"\<close>
  on whitespace and expects nine parts. The parser is therefore written from its
  specification.
\<close>

datatype parse_error = MalformedResponseError

record CountSnapshot =
  snapshot_counts :: "int list"
  overflow :: int

text \<open>
  Modelled from the spec: the whitespace on which \<^verbatim>\<open>parseCounts\<close> of the absent driver
  splits a reply (space, tab, line feed, vertical tab, form feed, carriage return).
\<close>

definition is_space :: "char \<Rightarrow> bool" where
  "is_space c = (c = CHR '' '' \<or> c = CHR 0x09 \<or> c = CHR 0x0A \<or> c = CHR 0x0B
     \<or> c = CHR 0x0C \<or> c = CHR 0x0D)"

text \<open>
  Modelled from the spec: the split of \<^verbatim>\<open>parseCounts\<close> of the absent driver, which cuts
  the reply at each run of whitespace and keeps the non-empty pieces; \<open>cur\<close> is the
  piece being read.
\<close>

fun tokens_from :: "string \<Rightarrow> string \<Rightarrow> string list" where
  "tokens_from cur [] = (if cur = [] then [] else [cur])"
| "tokens_from cur (c # cs) =
     (if is_space c then (if cur = [] then tokens_from [] cs else cur # tokens_from [] cs)
      else tokens_from (cur @ [c]) cs)"

text \<open>Modelled from the spec: the tokens of a reply, for \<^verbatim>\<open>parseCounts\<close> of the absent driver.\<close>

definition tokens :: "string \<Rightarrow> string list" where
  "tokens line = tokens_from [] line"

text \<open>
  Modelled from the spec: the value of a decimal digit, for the integer parsing of
  \<^verbatim>\<open>parseCounts\<close> of the absent driver; the digits are the ASCII codes 48 to 57.
\<close>

definition digit_val :: "char \<Rightarrow> nat option" where
  "digit_val c =
     (let code = (of_char c :: nat)
      in if 48 \<le> code \<and> code \<le> 57 then Some (code - 48) else None)"

text \<open>
  Modelled from the spec: the integer parsing of \<^verbatim>\<open>parseCounts\<close> of the absent driver,
  digit by digit; one character that is no digit fails the token.
\<close>

fun parse_digits :: "string \<Rightarrow> nat \<Rightarrow> nat option" where
  "parse_digits [] acc = Some acc"
| "parse_digits (c # cs) acc =
     (case digit_val c of None \<Rightarrow> None | Some d \<Rightarrow> parse_digits cs (10 * acc + d))"

text \<open>
  Modelled from the spec: the integer parsing of one token by \<^verbatim>\<open>parseCounts\<close> of the
  absent driver: decimal digits, at least one, after an optional minus sign.
\<close>

fun parse_int :: "string \<Rightarrow> int option" where
  "parse_int [] = None"
| "parse_int (c # cs) =
     (if c = CHR ''-''
      then (if cs = [] then None else map_option (\<lambda>n. - int n) (parse_digits cs 0))
      else map_option int (parse_digits (c # cs) 0))"

text \<open>
  Modelled from the spec: the parsing of all tokens by \<^verbatim>\<open>parseCounts\<close> of the absent
  driver; one token that fails voids the whole reply.
\<close>

fun parse_all :: "string list \<Rightarrow> int list option" where
  "parse_all [] = Some []"
| "parse_all (t # ts) =
     (case parse_int t of
        None \<Rightarrow> None
      | Some n \<Rightarrow> (case parse_all ts of None \<Rightarrow> None | Some ns \<Rightarrow> Some (n # ns)))"

text \<open>
  Modelled from the spec: \<^verbatim>\<open>parseCounts\<close> of the absent driver. It splits on whitespace,
  expects exactly nine tokens (eight channel counts and the overflow indicator) and fails
  with \<^verbatim>\<open>MalformedResponseError\<close> if the token count or the parsing of a token fails.
\<close>

definition parseCounts :: "string \<Rightarrow> parse_error + CountSnapshot" where
  "parseCounts line =
     (let ts = tokens line
      in if length ts \<noteq> 9 then Inl MalformedResponseError
         else case parse_all ts of
                None \<Rightarrow> Inl MalformedResponseError
              | Some ns \<Rightarrow> Inr \<lparr>snapshot_counts = take 8 ns, overflow = ns ! 8\<rparr>)"

section \<open>Example states\<close>

text \<open>
  A device after \<^verbatim>\<open>connect()\<close> and \<^verbatim>\<open>setCounts([10, 0, 0, 0, 0, 0, 0, 0])\<close>, and the
  counters a test may put in place while a measurement waits.
\<close>

definition bench_device :: MockCD48 where
  "bench_device =
     new_device\<lparr>connected := True, commandCount := Fin 0,
       counts := [Fin 10, Fin 0, Fin 0, Fin 0, Fin 0, Fin 0, Fin 0, Fin 0]\<rparr>"

definition counts_reset :: "jsnum list" where
  "counts_reset = [Fin 3, Fin 0, Fin 0, Fin 0, Fin 0, Fin 0, Fin 0, Fin 0]"

definition counts_grown :: "jsnum list" where
  "counts_grown = [Fin 26, Fin 0, Fin 0, Fin 0, Fin 0, Fin 0, Fin 0, Fin 0]"

text \<open>A profile after \<^verbatim>\<open>setOffset(3, 5)\<close> and \<^verbatim>\<open>setGain(3, 0)\<close>.\<close>

definition bench_profile :: CalibrationProfile where
  "bench_profile =
     (new_profile ''bench'')\<lparr>offsets := [Fin 3 \<mapsto> Fin 5], gains := [Fin 3 \<mapsto> Fin 0]\<rparr>"

section \<open>Helper lemmas\<close>

subsection \<open>Rounding\<close>

lemma rne_error: "\<bar>of_int (rne y) - y\<bar> \<le> 1 / 2"
  unfolding rne_def Let_def by (auto; linarith)

lemma rne_ge_floor: "\<lfloor>y\<rfloor> \<le> rne y"
  by (simp add: rne_def Let_def)

lemma rne_of_int [simp]: "rne (of_int k) = k"
  by (simp add: rne_def)

lemma rne_nonneg: "0 \<le> y \<Longrightarrow> 0 \<le> rne y"
  unfolding rne_def Let_def by (auto; linarith)

lemma rne_nonpos: "y \<le> 0 \<Longrightarrow> rne y \<le> 0"
  unfolding rne_def Let_def by (auto; linarith)

lemma ulp_pos [simp]: "0 < ulp x"
  by (simp add: ulp_def)

lemma ulp_nonneg [simp]: "0 \<le> ulp x"
  by (simp add: ulp_def)

lemma ulp_nonzero [simp]: "ulp x \<noteq> 0"
  by (simp add: ulp_def)

lemma powi_powr: "(2::real) powi k = 2 powr (real_of_int k)"
  by (simp add: powr_real_of_int')

lemma expo_le:
  assumes "x \<noteq> 0" "\<bar>x\<bar> < 2 powi (k + 1)" "- 1022 \<le> k"
  shows "expo x \<le> k"
proof -
  have "log 2 \<bar>x\<bar> < real_of_int (k + 1)"
    using assms(1,2) by (subst log_less_iff) (simp_all add: powi_powr)
  then have "\<lfloor>log 2 \<bar>x\<bar>\<rfloor> \<le> k" by linarith
  then show ?thesis using assms(3) by (simp add: expo_def)
qed

lemma floor_log_ge:
  assumes "x \<noteq> 0" "2 powi k \<le> \<bar>x\<bar>"
  shows "k \<le> \<lfloor>log 2 \<bar>x\<bar>\<rfloor>"
proof -
  have "real_of_int k \<le> log 2 \<bar>x\<bar>"
    using assms by (subst le_log_iff) (simp_all add: powi_powr)
  then show ?thesis by linarith
qed

lemma expo_ge:
  assumes "x \<noteq> 0" "2 powi k \<le> \<bar>x\<bar>"
  shows "k \<le> expo x"
  using floor_log_ge [OF assms] by (simp add: expo_def)

lemma expo_eq:
  assumes "2 powi e \<le> \<bar>x\<bar>" "\<bar>x\<bar> < 2 powi (e + 1)" "- 1022 \<le> e"
  shows "expo x = e"
proof -
  have "0 < (2::real) powi e" by simp
  with assms(1) have "0 < \<bar>x\<bar>" by linarith
  then have "x \<noteq> 0" by simp
  then show ?thesis using expo_le [of x e] expo_ge [of x e] assms by simp
qed

lemma expo_lower: "- 1022 \<le> expo x"
  by (simp add: expo_def)

lemma powi_expo_le:
  assumes "2 powi (- 1022) \<le> \<bar>x\<bar>"
  shows "2 powi (expo x) \<le> \<bar>x\<bar>"
proof -
  have "0 < (2::real) powi (- 1022)" by (rule zero_less_power_int) simp
  with assms have "0 < \<bar>x\<bar>" by linarith
  then have x: "x \<noteq> 0" by simp
  have "- 1022 \<le> \<lfloor>log 2 \<bar>x\<bar>\<rfloor>" using floor_log_ge [OF x assms] .
  then have e: "expo x = \<lfloor>log 2 \<bar>x\<bar>\<rfloor>" by (simp add: expo_def)
  have "real_of_int \<lfloor>log 2 \<bar>x\<bar>\<rfloor> \<le> log 2 \<bar>x\<bar>" by simp
  then have "2 powr (real_of_int \<lfloor>log 2 \<bar>x\<bar>\<rfloor>) \<le> \<bar>x\<bar>"
    using x by (subst (asm) le_log_iff) simp_all
  then show ?thesis unfolding e powi_powr .
qed

text \<open>The absolute error of rounding, away from overflow.\<close>

lemma fl_error:
  assumes "\<bar>x\<bar> < 2 powi (k + 1)" "- 1022 \<le> k" "k \<le> 1022"
  shows "\<exists>r. fl x = Fin r \<and> \<bar>r - x\<bar> \<le> 2 powi (k - 53)"
proof (cases "x = 0")
  case True
  then show ?thesis by (simp add: fl_def)
next
  case False
  define u where "u = ulp x"
  define r where "r = of_int (rne (x / u)) * u"
  have u0: "0 < u" by (simp add: u_def)
  have "expo x \<le> k" using expo_le [OF False assms(1,2)] .
  then have "u \<le> 2 powi (k - 52)"
    unfolding u_def ulp_def by (intro power_int_increasing) simp_all
  have "\<bar>of_int (rne (x / u)) - x / u\<bar> \<le> 1 / 2" by (rule rne_error)
  then have "\<bar>of_int (rne (x / u)) - x / u\<bar> * u \<le> 1 / 2 * u"
    using u0 by (intro mult_right_mono) simp_all
  moreover have "\<bar>of_int (rne (x / u)) - x / u\<bar> * u = \<bar>r - x\<bar>"
  proof -
    have "\<bar>of_int (rne (x / u)) - x / u\<bar> * u = \<bar>(of_int (rne (x / u)) - x / u) * u\<bar>"
      using u0 by (simp add: abs_mult)
    also have "(of_int (rne (x / u)) - x / u) * u = r - x"
      using u0 by (simp add: r_def field_simps)
    finally show ?thesis .
  qed
  ultimately have err: "\<bar>r - x\<bar> \<le> u / 2" by simp
  have half: "(2::real) powi (k - 52) / 2 = 2 powi (k - 53)"
    by (simp add: power_int_diff)
  have e1: "\<bar>r - x\<bar> \<le> 2 powi (k - 53)"
    using err \<open>u \<le> 2 powi (k - 52)\<close> half by linarith
  have "(2::real) powi (k - 53) \<le> 2 powi 969"
    using assms(3) by (intro power_int_increasing) simp_all
  moreover have "(2::real) powi (k + 1) \<le> 2 powi 1023"
    using assms(3) by (intro power_int_increasing) simp_all
  ultimately have "\<bar>r\<bar> < 2 powi 1023 + 2 powi 969"
    using e1 assms(1) by linarith
  also have "\<dots> < (2::real) ^ 1024" by simp
  finally have "\<not> 2 ^ 1024 \<le> \<bar>r\<bar>" by simp
  then have "fl x = Fin r"
    using False by (simp add: fl_def Let_def r_def u_def)
  with e1 show ?thesis by blast
qed


lemma fl_rel:
  assumes lo: "2 powi (- 1022) \<le> x" and hi: "x < 2 powi 1023"
  shows "\<exists>q. fl x = Fin (x * q) \<and> \<bar>q - 1\<bar> \<le> 2 powi (- 53)"
proof -
  have "0 < (2::real) powi (- 1022)" by (rule zero_less_power_int) simp
  with lo have x0: "0 < x" by linarith
  then have ax: "\<bar>x\<bar> = x" by simp
  define u where "u = ulp x"
  define r where "r = of_int (rne (x / u)) * u"
  have u0: "0 < u" by (simp add: u_def)
  have "2 powi (expo x) \<le> x" using powi_expo_le [of x] lo ax by simp
  then have "2 powi (expo x) * 2 powi (- 52) \<le> x * 2 powi (- 52)"
    by (intro mult_right_mono) simp_all
  moreover have "(2::real) powi (expo x - 52) = 2 powi (expo x) * 2 powi (- 52)"
    using power_int_add [of "2::real" "expo x" "- 52"] by simp
  ultimately have ux: "u \<le> x * 2 powi (- 52)"
    by (simp add: u_def ulp_def)
  have "\<bar>of_int (rne (x / u)) - x / u\<bar> \<le> 1 / 2" by (rule rne_error)
  then have "\<bar>of_int (rne (x / u)) - x / u\<bar> * u \<le> 1 / 2 * u"
    using u0 by (intro mult_right_mono) simp_all
  moreover have "\<bar>of_int (rne (x / u)) - x / u\<bar> * u = \<bar>r - x\<bar>"
  proof -
    have "\<bar>of_int (rne (x / u)) - x / u\<bar> * u = \<bar>(of_int (rne (x / u)) - x / u) * u\<bar>"
      using u0 by (simp add: abs_mult)
    also have "(of_int (rne (x / u)) - x / u) * u = r - x"
      using u0 by (simp add: r_def field_simps)
    finally show ?thesis .
  qed
  ultimately have err: "\<bar>r - x\<bar> \<le> u / 2" by simp
  have half: "(2::real) powi (- 52) / 2 = 2 powi (- 53)"
    using power_int_diff [of "2::real" "- 52" 1] by simp
  have e1: "\<bar>r - x\<bar> \<le> x * 2 powi (- 53)"
  proof -
    have "u / 2 \<le> x * 2 powi (- 52) / 2" using ux by simp
    also have "\<dots> = x * (2 powi (- 52) / 2)" by simp
    finally show ?thesis using err unfolding half by linarith
  qed
  have small: "(2::real) powi (- 53) \<le> 1"
    by simp
  have "\<bar>r\<bar> \<le> x + x * 2 powi (- 53)" using e1 x0 by linarith
  also have "\<dots> \<le> x + x * 1" using small x0 by (intro add_left_mono mult_left_mono) simp_all
  also have "\<dots> < 2 * 2 powi 1023" using hi by simp
  also have "\<dots> = (2::real) ^ 1024" by simp
  finally have "\<not> 2 ^ 1024 \<le> \<bar>r\<bar>" by simp
  then have fl: "fl x = Fin r"
    using x0 by (simp add: fl_def Let_def r_def u_def)
  define q where "q = r / x"
  have rq: "x * q = r" using x0 by (simp add: q_def)
  have "q - 1 = (r - x) / x" using x0 by (simp add: q_def field_simps)
  then have "\<bar>q - 1\<bar> = \<bar>r - x\<bar> / x" using x0 by simp
  also have "\<dots> \<le> x * 2 powi (- 53) / x"
    using e1 x0 by (intro divide_right_mono) simp_all
  also have "\<dots> = 2 powi (- 53)" using x0 by simp
  finally have "\<bar>q - 1\<bar> \<le> 2 powi (- 53)" .
  with fl rq show ?thesis by metis
qed


text \<open>A number of the binary64 grid rounds to itself.\<close>

lemma fl_exact:
  assumes x: "x = of_int m * 2 powi j" and m: "\<bar>m\<bar> < 2 ^ 53" and j: "- 1074 \<le> j"
    and mag: "\<bar>x\<bar> < 2 ^ 1024"
  shows "fl x = Fin x"
proof (cases "x = 0")
  case True
  then show ?thesis by (simp add: fl_def)
next
  case False
  have am: "\<bar>real_of_int m\<bar> < 2 ^ 53"
    using m by (metis of_int_abs of_int_less_numeral_power_cancel_iff)
  have "\<bar>x\<bar> = \<bar>real_of_int m\<bar> * 2 powi j" by (simp add: x abs_mult)
  also have "\<dots> < 2 ^ 53 * 2 powi j" using am by (intro mult_strict_right_mono) simp_all
  also have "\<dots> = 2 powi (j + 53)"
    using power_int_add [of "2::real" j 53] by simp
  finally have bound: "\<bar>x\<bar> < 2 powi (j + 53)" .
  have "expo x - 52 \<le> j"
  proof (cases "- 1022 \<le> j + 52")
    case True
    from expo_le [OF False _ True] bound show ?thesis by (simp add: add.commute)
  next
    case False
    then have "j + 53 \<le> - 1021" by simp
    then have "(2::real) powi (j + 53) \<le> 2 powi (- 1021)"
      by (intro power_int_increasing) simp_all
    with bound have "\<bar>x\<bar> < 2 powi (- 1022 + 1)" by simp
    from expo_le [OF \<open>x \<noteq> 0\<close> this] have "expo x \<le> - 1022" by simp
    with j show ?thesis by simp
  qed
  then obtain d where d: "j = (expo x - 52) + int d"
    by (metis add.commute diff_add_cancel diff_ge_0_iff_ge nonneg_int_cases)
  have "2 powi j = ulp x * 2 ^ d"
    unfolding ulp_def d using power_int_add [of "2::real" "expo x - 52" "int d"] by simp
  then have "of_int m * 2 powi j = of_int (m * 2 ^ d) * ulp x" by simp
  then have xd: "x = of_int (m * 2 ^ d) * ulp x" using x by simp
  have "x / ulp x = of_int (m * 2 ^ d) * ulp x / ulp x" using xd by simp
  also have "\<dots> = of_int (m * 2 ^ d)" by simp
  finally have "rne (x / ulp x) = m * 2 ^ d" by (simp only: rne_of_int)
  then have "of_int (rne (x / ulp x)) * ulp x = x" using xd by simp
  then show ?thesis using False mag by (simp add: fl_def Let_def)
qed

lemma fl_of_int:
  assumes "\<bar>k\<bar> < 2 ^ 53"
  shows "fl (of_int k) = Fin (of_int k)"
proof -
  have "\<bar>real_of_int k\<bar> < 2 ^ 53"
    using assms by (metis of_int_abs of_int_less_numeral_power_cancel_iff)
  also have "\<dots> < (2::real) ^ 1024" by simp
  finally show ?thesis using fl_exact [of "of_int k" k 0] assms by simp
qed

text \<open>The rounding of a number between two powers of two.\<close>

lemma fl_eval_rne:
  assumes lo: "2 powi e \<le> \<bar>x\<bar>" and hi: "\<bar>x\<bar> < 2 powi (e + 1)"
    and e: "- 1022 \<le> e" "e \<le> 1023"
    and n: "rne (x / 2 powi (e - 52)) = n" "\<bar>n\<bar> < 2 ^ 53"
  shows "fl x = Fin (of_int n * 2 powi (e - 52))"
proof -
  have "0 < (2::real) powi e" by simp
  with lo have "0 < \<bar>x\<bar>" by linarith
  then have x: "x \<noteq> 0" by simp
  have ex: "expo x = e" using expo_eq [OF lo hi e(1)] .
  have u: "ulp x = 2 powi (e - 52)" by (simp add: ulp_def ex)
  have "\<bar>real_of_int n\<bar> < 2 ^ 53"
    using n(2) by (metis of_int_abs of_int_less_numeral_power_cancel_iff)
  then have "\<bar>real_of_int n\<bar> * 2 powi (e - 52) < 2 ^ 53 * 2 powi (e - 52)"
    by (intro mult_strict_right_mono) simp_all
  also have "\<dots> = 2 powi (e + 1)"
    using power_int_add [of "2::real" 53 "e - 52"] by (simp add: add.commute)
  also have "\<dots> \<le> 2 powi 1024" using e(2) by (intro power_int_increasing) simp_all
  finally have "\<bar>real_of_int n * 2 powi (e - 52)\<bar> < 2 ^ 1024" by (simp add: abs_mult)
  then have "\<not> 2 ^ 1024 \<le> \<bar>real_of_int n * 2 powi (e - 52)\<bar>" by simp
  then show ?thesis unfolding fl_def Let_def u n(1) using x by (simp only: if_False)
qed

lemma fl_overflow:
  assumes "2 ^ 1024 \<le> x"
  shows "fl x = PInf"
proof -
  have x0: "0 < x" using assms by (smt (verit) zero_less_power)
  have lo: "2 powi 1024 \<le> \<bar>x\<bar>" using assms x0 by simp
  then have e: "1024 \<le> expo x" using expo_ge [of x 1024] x0 by simp
  then have "2 powi (- 1022) \<le> \<bar>x\<bar>"
    using lo by (smt (verit) power_int_increasing)
  then have pe: "2 powi (expo x) \<le> x" using powi_expo_le [of x] x0 by simp
  have "(2::real) powi (expo x) = 2 ^ 52 * ulp x"
    unfolding ulp_def using power_int_add [of "2::real" 52 "expo x - 52"] by simp
  with pe have "2 ^ 52 * ulp x \<le> x" by simp
  then have "2 ^ 52 \<le> x / ulp x" by (simp add: pos_le_divide_eq)
  then have "real_of_int (2 ^ 52) \<le> x / ulp x" by simp
  then have "(2::int) ^ 52 \<le> \<lfloor>x / ulp x\<rfloor>" by (simp only: le_floor_iff)
  also have "\<dots> \<le> rne (x / ulp x)" by (rule rne_ge_floor)
  finally have "real_of_int (2 ^ 52) \<le> of_int (rne (x / ulp x))" by (simp only: of_int_le_iff)
  then have "(2::real) ^ 52 \<le> of_int (rne (x / ulp x))" by simp
  then have A: "2 ^ 52 * ulp x \<le> of_int (rne (x / ulp x)) * ulp x"
    by (intro mult_right_mono) simp_all
  have B: "(2::real) powi 1024 \<le> 2 powi (expo x)"
    using e by (intro power_int_increasing) simp_all
  have "(2::real) ^ 1024 = 2 powi 1024" by simp
  also note B
  also note \<open>(2::real) powi (expo x) = 2 ^ 52 * ulp x\<close>
  also note A
  finally have "2 ^ 1024 \<le> \<bar>of_int (rne (x / ulp x)) * ulp x\<bar>" by linarith
  then show ?thesis using x0 by (simp add: fl_def Let_def)
qed

text \<open>Rounding keeps the sign.\<close>

lemma fl_nonpos:
  assumes "x \<le> 0"
  shows "fl x = NInf \<or> (\<exists>r. fl x = Fin r \<and> r \<le> 0)"
proof (cases "x = 0")
  case True
  then show ?thesis by (simp add: fl_def)
next
  case False
  have "x / ulp x \<le> 0" using assms by (simp add: divide_nonpos_pos)
  then have "rne (x / ulp x) \<le> 0" by (rule rne_nonpos)
  then have "of_int (rne (x / ulp x)) * ulp x \<le> 0"
    by (simp add: mult_nonpos_nonneg less_imp_le)
  then show ?thesis using False assms by (auto simp: fl_def Let_def)
qed

lemma fl_nonneg:
  assumes "0 \<le> x"
  shows "fl x = PInf \<or> (\<exists>r. fl x = Fin r \<and> 0 \<le> r)"
proof (cases "x = 0")
  case True
  then show ?thesis by (simp add: fl_def)
next
  case False
  have "0 \<le> x / ulp x" using assms by (intro divide_nonneg_pos) simp_all
  then have "0 \<le> rne (x / ulp x)" by (rule rne_nonneg)
  then have "0 \<le> of_int (rne (x / ulp x)) * ulp x"
    by (intro mult_nonneg_nonneg) (simp_all add: less_imp_le)
  then show ?thesis using False assms by (auto simp: fl_def Let_def)
qed

lemma three_factors:
  fixes a b c eps :: real
  assumes "\<bar>a - 1\<bar> \<le> eps" "\<bar>b - 1\<bar> \<le> eps" "\<bar>c - 1\<bar> \<le> eps" "eps \<le> 1 / 4"
  shows "\<bar>a * b * c - 1\<bar> \<le> 4 * eps"
proof -
  have e0: "0 \<le> eps" using assms(1) by linarith
  have a: "\<bar>a\<bar> \<le> 5 / 4" using assms(1,4) by linarith
  have b: "\<bar>b\<bar> \<le> 5 / 4" using assms(2,4) by linarith
  have ab: "\<bar>a * b\<bar> \<le> 25 / 16"
    using mult_mono [of "\<bar>a\<bar>" "5 / 4" "\<bar>b\<bar>" "5 / 4"] a b by (simp add: abs_mult)
  have "a * b * c - 1 = (a - 1) + a * (b - 1) + a * b * (c - 1)" by (simp add: algebra_simps)
  then have "\<bar>a * b * c - 1\<bar> \<le> \<bar>a - 1\<bar> + \<bar>a * (b - 1)\<bar> + \<bar>a * b * (c - 1)\<bar>"
    by linarith
  moreover have "\<bar>a * (b - 1)\<bar> \<le> 5 / 4 * eps"
    using mult_mono [of "\<bar>a\<bar>" "5 / 4" "\<bar>b - 1\<bar>" eps] a assms(2) e0 by (simp add: abs_mult)
  moreover have "\<bar>a * b * (c - 1)\<bar> \<le> 25 / 16 * eps"
    using mult_mono [of "\<bar>a * b\<bar>" "25 / 16" "\<bar>c - 1\<bar>" eps] ab assms(3) e0
    by (simp add: abs_mult)
  ultimately show ?thesis using assms(1) e0 by linarith
qed

subsection \<open>Example states and the mock device\<close>

lemma js_mul_one [simp]: "js_mul r (Fin 1) = r"
  by (cases r) simp_all

lemma bench_device_reached:
  "\<exists>d. connect new_device = (Inr True, d)
     \<and> setCounts d [Fin 10, Fin 0, Fin 0, Fin 0, Fin 0, Fin 0, Fin 0, Fin 0] = Inr bench_device"
  by (simp add: connect_def setCounts_def new_device_def bench_device_def)

lemma bench_profile_reached:
  "\<exists>p. setOffset (new_profile ''bench'') (Fin 3) (Fin 5) = Inr p
     \<and> setGain p (Fin 3) (Fin 0) = Inr bench_profile"
  by (simp add: setOffset_def setGain_def js_gt_def new_profile_def bench_profile_def)

lemma executeCommand_bench:
  "executeCommand bench_device = (Inr (), bench_device\<lparr>commandCount := Fin 1\<rparr>)"
  by (simp add: executeCommand_def bench_device_def new_device_def)

lemma counts_bench:
  "counts (bench_device\<lparr>commandCount := Fin 1\<rparr>)
     = [Fin 10, Fin 0, Fin 0, Fin 0, Fin 0, Fin 0, Fin 0, Fin 0]"
  by (simp add: bench_device_def)

lemma executeCommand_not_connected:
  "\<not> connected dev \<Longrightarrow> executeCommand dev = (Inl (Error ''Device not connected''), dev)"
  by (simp add: executeCommand_def)

subsection \<open>Coincidence correction\<close>

lemma Math_max_zero_not_negative: "\<not> js_lt (Math_max (Fin 0) x) (Fin 0)"
  by (cases x) (simp_all add: Math_max_def)

lemma trueRate_not_negative: "\<not> js_lt (trueRate m r1 r2 w) (Fin 0)"
  by (simp add: trueRate_def Math_max_zero_not_negative)

lemma trueRate_clamped:
  assumes "accidentalRate r1 r2 w = Fin acc" "cr \<le> acc"
  shows "trueRate (Fin cr) r1 r2 w = Fin 0"
proof -
  have "cr - acc \<le> 0" using assms(2) by simp
  from fl_nonpos [OF this] show ?thesis
    by (auto simp: trueRate_def assms(1) d_sub_def js_sub_def Math_max_def)
qed

lemma accidentalRate_in_range:
  assumes a: "2 powi (- 1021) \<le> 2 * a" "2 * a \<le> 2 powi 1022"
    and b: "2 powi (- 1021) \<le> 2 * a * b" "2 * a * b \<le> 2 powi 1022"
    and w: "2 powi (- 1021) \<le> 2 * a * b * w" "2 * a * b * w \<le> 2 powi 1022"
  shows "\<exists>r. accidentalRate (Fin a) (Fin b) (Fin w) = Fin r
           \<and> \<bar>r - 2 * w * a * b\<bar> \<le> 2 powi (- 51) * (2 * w * a * b)"
proof -
  define eps :: real where "eps = 2 powi (- 53)"
  have eps: "0 < eps" "eps \<le> 1 / 4" by (simp_all add: eps_def)
  have lo: "(2::real) powi (- 1021) = 2 * 2 powi (- 1022)"
    using power_int_add [of "2::real" 1 "- 1022"] by simp
  have hi: "(2::real) powi 1023 = 2 * 2 powi 1022"
    using power_int_add [of "2::real" 1 1022] by simp
  have p0: "0 < (2::real) powi (- 1022)" by (rule zero_less_power_int) simp
  have "2 powi (- 1022) \<le> 2 * a" "2 * a < 2 powi 1023"
    using a p0 unfolding lo hi by linarith+
  from fl_rel [OF this] obtain q1 where
    q1: "fl (2 * a) = Fin (2 * a * q1)" "\<bar>q1 - 1\<bar> \<le> eps" unfolding eps_def by blast
  have q1b: "1 / 2 \<le> q1" "q1 < 2" using q1(2) eps by linarith+
  have P2: "0 < 2 * a * b" using b(1) p0 unfolding lo by linarith
  have "2 powi (- 1022) \<le> 2 * a * b * q1"
  proof -
    have "(2::real) powi (- 1022) = 2 powi (- 1021) * (1 / 2)" unfolding lo by simp
    also have "\<dots> \<le> (2 * a * b) * q1"
      using b(1) q1b(1) by (intro mult_mono) (simp_all add: less_imp_le)
    finally show ?thesis .
  qed
  moreover have "2 * a * b * q1 < 2 powi 1023"
  proof -
    have "(2 * a * b) * q1 < 2 powi 1022 * 2"
      using b(2) q1b P2 by (intro mult_le_less_imp_less) simp_all
    then show ?thesis unfolding hi by simp
  qed
  ultimately obtain q2 where
    q2: "fl (2 * a * b * q1) = Fin (2 * a * b * q1 * q2)" "\<bar>q2 - 1\<bar> \<le> eps"
    using fl_rel [of "2 * a * b * q1"] unfolding eps_def by blast
  have q2b: "1 / 2 \<le> q2" "q2 < 2" using q2(2) eps by linarith+
  have q12: "1 / 2 \<le> q1 * q2" "q1 * q2 < 2"
  proof -
    define z where "z = q1 * q2"
    have "\<bar>q1 * q2 * 1 - 1\<bar> \<le> 4 * eps"
      using three_factors [of q1 eps q2 1] q1(2) q2(2) eps by simp
    then have "\<bar>z - 1\<bar> \<le> 4 * eps" by (simp add: z_def)
    moreover have "4 * eps \<le> 1 / 2" by (simp add: eps_def)
    ultimately have "1 / 2 \<le> z" "z < 2" by linarith+
    then show "1 / 2 \<le> q1 * q2" "q1 * q2 < 2" by (simp_all add: z_def)
  qed
  have P3: "0 < 2 * a * b * w" using w(1) p0 unfolding lo by linarith
  have "2 powi (- 1022) \<le> 2 * a * b * w * (q1 * q2)"
  proof -
    have "(2::real) powi (- 1022) = 2 powi (- 1021) * (1 / 2)" unfolding lo by simp
    also have "\<dots> \<le> (2 * a * b * w) * (q1 * q2)"
      using w(1) q12(1) by (intro mult_mono) (simp_all add: less_imp_le)
    finally show ?thesis .
  qed
  moreover have "2 * a * b * w * (q1 * q2) < 2 powi 1023"
  proof -
    have "(2 * a * b * w) * (q1 * q2) < 2 powi 1022 * 2"
      using w(2) q12 P3 by (intro mult_le_less_imp_less) simp_all
    then show ?thesis unfolding hi by simp
  qed
  ultimately obtain q3 where
    q3: "fl (2 * a * b * w * (q1 * q2)) = Fin (2 * a * b * w * (q1 * q2) * q3)"
      "\<bar>q3 - 1\<bar> \<le> eps"
    using fl_rel [of "2 * a * b * w * (q1 * q2)"] unfolding eps_def by blast
  have e2: "2 * a * q1 * b = 2 * a * b * q1" by simp
  have e3: "2 * a * b * q1 * q2 * w = 2 * a * b * w * (q1 * q2)" by simp
  have s1: "d_mul (Fin 2) (Fin a) = Fin (2 * a * q1)"
    by (simp only: d_mul_def js_mul.simps rnd.simps q1(1))
  have s2: "d_mul (Fin (2 * a * q1)) (Fin b) = Fin (2 * a * b * q1 * q2)"
    by (simp only: d_mul_def js_mul.simps rnd.simps e2 q2(1))
  have s3: "d_mul (Fin (2 * a * b * q1 * q2)) (Fin w) = Fin (2 * a * b * w * (q1 * q2) * q3)"
    by (simp only: d_mul_def js_mul.simps rnd.simps e3 q3(1))
  have acc: "accidentalRate (Fin a) (Fin b) (Fin w) = Fin (2 * a * b * w * (q1 * q2) * q3)"
    unfolding accidentalRate_def s1 s2 s3 ..
  have q123: "\<bar>q1 * q2 * q3 - 1\<bar> \<le> 4 * eps"
    using three_factors [OF q1(2) q2(2) q3(2) eps(2)] .
  have P3abs: "\<bar>2 * a * b * w\<bar> = 2 * a * b * w" using P3 by (simp only: abs_of_pos)
  have "2 * a * b * w * (q1 * q2) * q3 - 2 * w * a * b = (q1 * q2 * q3 - 1) * (2 * a * b * w)"
    by (simp add: algebra_simps)
  then have "\<bar>2 * a * b * w * (q1 * q2) * q3 - 2 * w * a * b\<bar>
      = \<bar>q1 * q2 * q3 - 1\<bar> * \<bar>2 * a * b * w\<bar>"
    using abs_mult [of "q1 * q2 * q3 - 1" "2 * a * b * w"] by (simp only:)
  then have "\<bar>2 * a * b * w * (q1 * q2) * q3 - 2 * w * a * b\<bar>
      = \<bar>q1 * q2 * q3 - 1\<bar> * (2 * a * b * w)"
    unfolding P3abs .
  also have "\<dots> \<le> 4 * eps * (2 * a * b * w)"
    using q123 P3 by (intro mult_right_mono) simp_all
  also have "4 * eps * (2 * a * b * w) = 2 powi (- 51) * (2 * w * a * b)"
    by (simp add: eps_def)
  finally have "\<bar>2 * a * b * w * (q1 * q2) * q3 - 2 * w * a * b\<bar>
      \<le> 2 powi (- 51) * (2 * w * a * b)" .
  with acc show ?thesis by blast
qed

lemma accidentalRate_zero_first:
  "accidentalRate (Fin 0) (Fin b) (Fin w) = Fin 0"
  by (simp add: accidentalRate_def d_mul_def fl_def)

lemma accidentalRate_zero_second:
  assumes "\<bar>2 * a\<bar> < 2 powi 1023"
  shows "accidentalRate (Fin a) (Fin 0) (Fin w) = Fin 0"
proof -
  have "\<bar>2 * a\<bar> < 2 powi (1022 + 1)" using assms by simp
  from fl_error [OF this] obtain r where "fl (2 * a) = Fin r" by auto
  then show ?thesis by (simp add: accidentalRate_def d_mul_def fl_def)
qed

lemma accidentalRate_zero_window:
  assumes "d_mul (d_mul (Fin 2) (Fin a)) (Fin b) = Fin p"
  shows "accidentalRate (Fin a) (Fin b) (Fin 0) = Fin 0"
  unfolding accidentalRate_def assms by (simp add: d_mul_def fl_def)

text \<open>
  Inside the range the order of the products still shows in the last bit: with both rates
  0.1 (the binary64 number nearest to it) and the window 10, the product taken as the code
  takes it is 7205759403792795 / 2 ^ 55, and taken as \<open>2 * w * rateA * rateB\<close> it is
  3602879701896397 / 2 ^ 54, the binary64 number nearest to 0.2.
\<close>

lemma fl_order_0: "fl (3602879701896397 / 18014398509481984) = Fin (3602879701896397 / 18014398509481984)"
  using fl_exact [of "3602879701896397 / 18014398509481984" 3602879701896397 "-54"] by simp

lemma fl_order_1:
  "fl (12980742146337070512478121581609 / 649037107316853453566312041152512)
   = Fin (1441151880758559 / 72057594037927936)"
  using fl_eval_rne
    [of "-6" "12980742146337070512478121581609 / 649037107316853453566312041152512"
        5764607523034236]
  by (simp add: rne_def)

lemma fl_order_2: "fl (7205759403792795 / 36028797018963968) = Fin (7205759403792795 / 36028797018963968)"
  using fl_exact [of "7205759403792795 / 36028797018963968" 7205759403792795 "-55"] by simp

lemma fl_order_3: "fl 20 = Fin 20"
  using fl_exact [of "20" 20 "0"] by simp

lemma fl_order_4: "fl (18014398509481985 / 9007199254740992) = Fin 2"
  using fl_eval_rne [of "1" "18014398509481985 / 9007199254740992" 4503599627370496]
  by (simp add: rne_def)

lemma accidentalRate_order:
  "accidentalRate (Fin (3602879701896397 / 36028797018963968))
     (Fin (3602879701896397 / 36028797018963968)) (Fin 10)
   = Fin (7205759403792795 / 36028797018963968)"
  by (simp add: accidentalRate_def d_mul_def fl_order_0 fl_order_1 fl_order_2 fl_order_3 fl_order_4)

lemma claimed_order:
  "d_mul (d_mul (d_mul (Fin 2) (Fin 10)) (Fin (3602879701896397 / 36028797018963968)))
     (Fin (3602879701896397 / 36028797018963968))
   = Fin (3602879701896397 / 18014398509481984)"
  by (simp add: d_mul_def fl_order_0 fl_order_1 fl_order_2 fl_order_3 fl_order_4)

lemma fl_two_powers:
  "fl (2 ^ 1024) = PInf" "fl (2 ^ 1022) = Fin (2 ^ 1022)" "fl (1 / 2) = Fin (1 / 2)"
  using fl_overflow [of "2 ^ 1024"] fl_exact [of "2 ^ 1022" 1 1022] fl_exact [of "1 / 2" 1 "- 1"]
  by simp_all

lemma accidentalRate_overflow:
  "accidentalRate (Fin (2 ^ 1023)) (Fin 1) (Fin (1 / 4)) = PInf"
proof -
  have "d_mul (Fin 2) (Fin (2 ^ 1023)) = PInf"
    using fl_two_powers(1) by (simp add: d_mul_def)
  then show ?thesis by (simp add: accidentalRate_def d_mul_def)
qed

lemma claimed_order_finite:
  "d_mul (d_mul (d_mul (Fin 2) (Fin (1 / 4))) (Fin (2 ^ 1023))) (Fin 1) = Fin (2 ^ 1022)"
proof -
  have "d_mul (Fin 2) (Fin (1 / 4)) = Fin (1 / 2)"
    using fl_two_powers(3) by (simp add: d_mul_def)
  moreover have "d_mul (Fin (1 / 2)) (Fin (2 ^ 1023)) = Fin (2 ^ 1022)"
    using fl_two_powers(2) by (simp add: d_mul_def)
  moreover have "d_mul (Fin (2 ^ 1022)) (Fin 1) = Fin (2 ^ 1022)"
    using fl_two_powers(2) by (simp add: d_mul_def)
  ultimately show ?thesis by (simp only:)
qed

lemma trueRate_overflow:
  "trueRate (Fin (3 * 2 ^ 1021)) (Fin (2 ^ 1023)) (Fin 1) (Fin (1 / 4)) = Fin 0"
  unfolding trueRate_def accidentalRate_overflow Let_def
  by (simp add: d_sub_def js_sub_def Math_max_def)

lemma trueRate_NaN:
  "trueRate (Fin 5) (Fin (2 ^ 1023)) (Fin 0) (Fin 1) = NaN"
proof -
  have "d_mul (Fin 2) (Fin (2 ^ 1023)) = PInf"
    using fl_two_powers(1) by (simp add: d_mul_def)
  then have "accidentalRate (Fin (2 ^ 1023)) (Fin 0) (Fin 1) = NaN"
    by (simp add: accidentalRate_def d_mul_def)
  then show ?thesis
    unfolding trueRate_def Let_def by (simp add: d_sub_def js_sub_def Math_max_def)
qed

subsection \<open>Voltage conversion\<close>

lemma VOLTAGE_MAX_value: "VOLTAGE_MAX = Fin vmax"
  unfolding VOLTAGE_MAX_def vmax_def
  using fl_eval_rne [of 2 "4.08" 4593671619917906] by (simp add: rne_def)

lemma vmax_bounds: "4.08 < vmax" "vmax < 4.09"
  by (simp_all add: vmax_def)

lemma clampVoltage_mid:
  assumes "0 \<le> v" "v \<le> vmax"
  shows "clampVoltage (Fin v) = Fin v"
proof -
  have "Math_min (Fin vmax) (Fin v) = Fin v"
    using assms by (auto simp: Math_min_def)
  then show ?thesis
    using assms by (auto simp: clampVoltage_def clamp_def Math_max_def VOLTAGE_MIN_def VOLTAGE_MAX_value)
qed

lemma clampVoltage_bounds:
  assumes "\<not> isNaN v"
  shows "js_le (Fin 0) (clampVoltage v)" and "js_le (clampVoltage v) VOLTAGE_MAX"
  using assms vmax_bounds
  by (cases v; simp add: clampVoltage_def clamp_def Math_max_def Math_min_def js_le_def
        VOLTAGE_MIN_def VOLTAGE_MAX_value)+

lemma voltageToByte_mid:
  assumes "0 \<le> v" "v \<le> vmax"
  shows "\<exists>b. voltageToByte (Fin v) = Fin (of_int b) \<and> 0 \<le> b \<and> b \<le> 255
           \<and> \<bar>of_int b - 255 * v / vmax\<bar> \<le> 1 / 2 + 2 powi (- 44)"
proof -
  define x1 where "x1 = v / vmax"
  have vm0: "0 < vmax" using vmax_bounds by simp
  have x1: "0 \<le> x1" "x1 \<le> 1" using assms vm0 by (simp_all add: x1_def)
  then have "\<bar>x1\<bar> < 2 powi (0 + 1)" by simp
  from fl_error [OF this] obtain q where q: "fl x1 = Fin q" "\<bar>q - x1\<bar> \<le> 2 powi (0 - 53)"
    by auto
  have qb: "\<bar>q - x1\<bar> \<le> 1 / 9007199254740992" using q(2) by simp
  have "\<bar>q * 255\<bar> < 256" using qb x1 by linarith
  then have "\<bar>q * 255\<bar> < 2 powi (7 + 1)" by simp
  from fl_error [OF this] obtain p where p: "fl (q * 255) = Fin p" "\<bar>p - q * 255\<bar> \<le> 2 powi (7 - 53)"
    by auto
  have pb: "\<bar>p - q * 255\<bar> \<le> 1 / 70368744177664" using p(2) by simp
  define b where "b = \<lfloor>p + 1 / 2\<rfloor>"
  have "voltageToByte (Fin v) = Math_round (d_mul (d_div (Fin v) (Fin vmax)) (Fin 255))"
    by (simp add: voltageToByte_def clampVoltage_mid [OF assms] VOLTAGE_MAX_value BYTE_MAX_def)
  also have "d_div (Fin v) (Fin vmax) = Fin q"
    using vm0 q(1) by (simp add: d_div_def x1_def)
  also have "d_mul (Fin q) (Fin 255) = Fin p"
    using p(1) by (simp add: d_mul_def)
  finally have vb: "voltageToByte (Fin v) = Fin (of_int b)" by (simp add: b_def)
  have near: "\<bar>p - 255 * x1\<bar> \<le> 1 / 17592186044416" using qb pb by linarith
  have bp: "of_int b \<le> p + 1 / 2" "p + 1 / 2 < of_int b + 1" unfolding b_def by linarith+
  have "0 \<le> p + 1 / 2" "p + 1 / 2 < 256" using near x1 by linarith+
  then have b0: "0 \<le> b" and b1: "b \<le> 255" unfolding b_def by linarith+
  have "\<bar>of_int b - 255 * x1\<bar> \<le> 1 / 2 + 1 / 17592186044416" using bp near by linarith
  then have "\<bar>of_int b - 255 * v / vmax\<bar> \<le> 1 / 2 + 2 powi (- 44)" by (simp add: x1_def)
  with vb b0 b1 show ?thesis by blast
qed

lemma byteToVoltage_mid:
  assumes "0 \<le> y" "y \<le> 255"
  shows "\<exists>u. byteToVoltage (JNumber (Fin y)) = Inr (Fin u)
           \<and> d_mul (d_div (Fin y) BYTE_MAX) VOLTAGE_MAX = Fin u
           \<and> \<bar>u - y / 255 * vmax\<bar> \<le> 2 powi (- 49)"
proof -
  define x3 where "x3 = y / 255"
  have x3: "0 \<le> x3" "x3 \<le> 1" using assms by (simp_all add: x3_def)
  then have "\<bar>x3\<bar> < 2 powi (0 + 1)" by simp
  from fl_error [OF this] obtain t where t: "fl x3 = Fin t" "\<bar>t - x3\<bar> \<le> 2 powi (0 - 53)"
    by auto
  have tb: "\<bar>t - x3\<bar> \<le> 1 / 9007199254740992" using t(2) by simp
  have "\<bar>t * (2296835809958953 / 562949953421312)\<bar> < 8" using tb x3 by linarith
  then have "\<bar>t * vmax\<bar> < 2 powi (2 + 1)" by (simp add: vmax_def)
  from fl_error [OF this] obtain u where u: "fl (t * vmax) = Fin u" "\<bar>u - t * vmax\<bar> \<le> 2 powi (2 - 53)"
    by auto
  have ub: "\<bar>u - t * vmax\<bar> \<le> 1 / 2251799813685248" using u(2) by simp
  have "d_div (Fin y) BYTE_MAX = Fin t" using t(1) by (simp add: d_div_def BYTE_MAX_def x3_def)
  then have val: "d_mul (d_div (Fin y) BYTE_MAX) VOLTAGE_MAX = Fin u"
    using u(1) by (simp add: d_mul_def VOLTAGE_MAX_value)
  have ok: "validateByte (JNumber (Fin y)) = Inr ()"
    using assms by (simp add: BYTE_MIN_def BYTE_MAX_def js_gt_def)
  have res: "byteToVoltage (JNumber (Fin y)) = Inr (Fin u)"
    unfolding byteToVoltage_def ok by (simp add: val)
  have "\<bar>u - x3 * (2296835809958953 / 562949953421312)\<bar> \<le> 1 / 562949953421312"
    using tb ub x3 unfolding vmax_def by linarith
  then have "\<bar>u - x3 * vmax\<bar> \<le> 1 / 562949953421312" by (simp add: vmax_def)
  then have "\<bar>u - y / 255 * vmax\<bar> \<le> 2 powi (- 49)" by (simp add: x3_def)
  with res val show ?thesis by blast
qed


lemma voltageToByte_low:
  assumes "js_lt v (Fin 0)"
  shows "voltageToByte v = Fin 0"
  using assms vmax_bounds
  by (cases v)
     (simp_all add: voltageToByte_def clampVoltage_def clamp_def Math_max_def Math_min_def
        VOLTAGE_MIN_def VOLTAGE_MAX_value BYTE_MAX_def d_div_def d_mul_def fl_def)

lemma voltageToByte_high:
  assumes "js_lt VOLTAGE_MAX v"
  shows "voltageToByte v = Fin 255"
proof -
  have c: "clampVoltage v = Fin vmax"
    using assms vmax_bounds
    by (cases v)
       (simp_all add: clampVoltage_def clamp_def Math_max_def Math_min_def
          VOLTAGE_MIN_def VOLTAGE_MAX_value)
  have one: "fl 1 = Fin 1" using fl_of_int [of 1] by simp
  have b: "fl 255 = Fin 255" using fl_of_int [of 255] by simp
  have "vmax \<noteq> 0" using vmax_bounds by simp
  then show ?thesis
    by (simp add: voltageToByte_def c VOLTAGE_MAX_value BYTE_MAX_def d_div_def d_mul_def one b)
qed

lemma voltageToByte_NaN: "voltageToByte NaN = NaN"
  by (simp add: voltageToByte_def clampVoltage_def clamp_def Math_max_def Math_min_def
        d_div_def d_mul_def)

lemma voltageToByte_byte:
  assumes "\<not> isNaN v"
  shows "\<exists>b. voltageToByte v = Fin (of_int b) \<and> 0 \<le> b \<and> b \<le> 255"
proof (cases v)
  case (Fin x)
  consider "x < 0" | "0 \<le> x" "x \<le> vmax" | "vmax < x" by linarith
  then show ?thesis
  proof cases
    case 1
    then have "voltageToByte v = Fin (of_int 0)" using voltageToByte_low [of v] Fin by simp
    then show ?thesis by (intro exI [of _ 0]) simp
  next
    case 2
    from voltageToByte_mid [OF this] show ?thesis unfolding Fin by blast
  next
    case 3
    then have "voltageToByte v = Fin (of_int 255)"
      using voltageToByte_high [of v] Fin by (simp add: VOLTAGE_MAX_value)
    then show ?thesis by (intro exI [of _ 255]) simp
  qed
next
  case PInf
  then have "voltageToByte v = Fin (of_int 255)"
    using voltageToByte_high [of v] by (simp add: VOLTAGE_MAX_value)
  then show ?thesis by (intro exI [of _ 255]) simp
next
  case NInf
  then have "voltageToByte v = Fin (of_int 0)" using voltageToByte_low [of v] by simp
  then show ?thesis by (intro exI [of _ 0]) simp
next
  case NaN
  with assms show ?thesis by simp
qed

lemma voltageToByte_nearest:
  assumes "0 \<le> x" "x \<le> 4.08"
  shows "\<exists>b. voltageToByte (Fin x) = Fin (of_int b)
           \<and> \<bar>of_int b - x / 4.08 * 255\<bar> \<le> 1 / 2 + 2 powi (- 40)"
proof -
  have v: "x \<le> vmax" using assms(2) vmax_bounds by linarith
  from voltageToByte_mid [OF assms(1) v] obtain b where
    b: "voltageToByte (Fin x) = Fin (of_int b)"
       "\<bar>of_int b - 255 * x / vmax\<bar> \<le> 1 / 2 + 2 powi (- 44)" by blast
  have b4: "\<bar>of_int b - 255 * x / (2296835809958953 / 562949953421312)\<bar>
      \<le> 1 / 2 + 1 / 17592186044416"
    using b(2) by (simp add: vmax_def)
  have "\<bar>of_int b - x / 4.08 * 255\<bar> \<le> 1 / 2 + 2 powi (- 40)"
    using b4 assms by (simp add: abs_le_iff) argo
  with b(1) show ?thesis by blast
qed

lemma voltageToByte_3: "voltageToByte (Fin 3) = Fin 187"
proof -
  have c: "clampVoltage (Fin 3) = Fin 3"
    by (rule clampVoltage_mid) (simp_all add: vmax_def)
  have q: "fl (3 / vmax) = Fin (6622940628486023 / 9007199254740992)"
    using fl_eval_rne [of "- 1" "3 / vmax" 6622940628486023] by (simp add: vmax_def rne_def)
  have p: "fl (1688849860263935865 / 9007199254740992) = Fin (6597069766655999 / 35184372088832)"
    using fl_eval_rne [of 7 "1688849860263935865 / 9007199254740992" 6597069766655999]
    by (simp add: rne_def)
  have "vmax \<noteq> 0" by (simp add: vmax_def)
  then show ?thesis
    by (simp add: voltageToByte_def c VOLTAGE_MAX_value BYTE_MAX_def d_div_def d_mul_def q p)
qed

lemma voltageToByte_2_04: "Math_round (d_mul (d_div (fl 2.04) VOLTAGE_MAX) BYTE_MAX) = Fin 128"
proof -
  have t: "fl 2.04 = Fin (vmax / 2)"
    using fl_eval_rne [of 1 "2.04" 4593671619917906] by (simp add: vmax_def rne_def)
  have h: "fl (1 / 2) = Fin (1 / 2)" using fl_exact [of "1 / 2" 1 "- 1"] by simp
  have m: "fl (255 / 2) = Fin (255 / 2)" using fl_exact [of "255 / 2" 255 "- 1"] by simp
  have "vmax \<noteq> 0" by (simp add: vmax_def)
  then show ?thesis
    unfolding t VOLTAGE_MAX_value BYTE_MAX_def d_div_def d_mul_def
    by (simp add: h m)
qed

lemma byteToVoltage_rejects:
  assumes "isNaN b \<or> js_lt b (Fin 0) \<or> js_lt (Fin 255) b"
  shows "\<exists>m. byteToVoltage (JNumber b) = Inl (ValidationError ''byte'' (JNumber b) m)"
  using assms
  by (cases b) (auto simp: byteToVoltage_def BYTE_MIN_def BYTE_MAX_def js_gt_def)

lemma byteToVoltage_not_number:
  assumes "\<forall>n. x \<noteq> JNumber n"
  shows "\<exists>m. byteToVoltage x = Inl (ValidationError ''byte'' x m)"
  using assms by (cases x) (simp_all add: byteToVoltage_def)

subsection \<open>Fitting\<close>

lemma multiPoint_too_few:
  "length points < 2 \<Longrightarrow>
   multiPoint points = Inl (Error ''At least 2 calibration points required'')"
  by (simp add: multiPoint_def)

lemma multiPoint_returns:
  "2 \<le> length points \<Longrightarrow> \<exists>c. multiPoint points = Inr c"
  by (simp add: multiPoint_def Let_def split: prod.splits)

lemma js_div_zero_not_finite: "js_div x (Fin 0) = NaN \<or> js_div x (Fin 0) = PInf \<or> js_div x (Fin 0) = NInf"
  by (cases x) simp_all

lemma twoPoint_equal_raw:
  "gain (twoPoint \<lparr>raw = Fin r, actual = a1\<rparr> \<lparr>raw = Fin r, actual = a2\<rparr>) = NaN
   \<or> gain (twoPoint \<lparr>raw = Fin r, actual = a1\<rparr> \<lparr>raw = Fin r, actual = a2\<rparr>) = PInf
   \<or> gain (twoPoint \<lparr>raw = Fin r, actual = a1\<rparr> \<lparr>raw = Fin r, actual = a2\<rparr>) = NInf"
  using js_div_zero_not_finite [of "js_sub a2 a1"]
  by (simp add: twoPoint_def js_sub_def Let_def)

lemma fl_small:
  "fl 1 = Fin 1" "fl 2 = Fin 2" "fl 4 = Fin 4"
  using fl_of_int [of 1] fl_of_int [of 2] fl_of_int [of 4] by simp_all

text \<open>
  Three points of raw value 0.3 (the binary64 number nearest to it) and actual values
  1, 2, 3: the sums leave a residue, the denominator is \<open>2 ^ - 52\<close> and not zero, and the fit
  returns the gain 0 and the offset 2.
\<close>

lemma fl_residue_0: "fl (5404319552844595 / 18014398509481984) = Fin (5404319552844595 / 18014398509481984)"
  using fl_exact [of "5404319552844595 / 18014398509481984" 5404319552844595 "-54"] by simp

lemma fl_residue_1: "fl 1 = Fin 1"
  using fl_exact [of "1" 1 "0"] by simp

lemma fl_residue_2: "fl (29206669829258403248756220714025 / 324518553658426726783156020576256) = Fin (3242591731706757 / 36028797018963968)"
  using fl_eval_rne [of "-4" "29206669829258403248756220714025 / 324518553658426726783156020576256" 6485183463413514] by (simp add: rne_def)

lemma fl_residue_3: "fl (3242591731706757 / 36028797018963968) = Fin (3242591731706757 / 36028797018963968)"
  using fl_exact [of "3242591731706757 / 36028797018963968" 3242591731706757 "-55"] by simp

lemma fl_residue_4: "fl (5404319552844595 / 9007199254740992) = Fin (5404319552844595 / 9007199254740992)"
  using fl_exact [of "5404319552844595 / 9007199254740992" 5404319552844595 "-53"] by simp

lemma fl_residue_5: "fl 3 = Fin 3"
  using fl_exact [of "3" 3 "0"] by simp

lemma fl_residue_6: "fl (16212958658533785 / 18014398509481984) = Fin (2026619832316723 / 2251799813685248)"
  using fl_eval_rne [of "-1" "16212958658533785 / 18014398509481984" 8106479329266892] by (simp add: rne_def)

lemma fl_residue_7: "fl (3242591731706757 / 18014398509481984) = Fin (3242591731706757 / 18014398509481984)"
  using fl_exact [of "3242591731706757 / 18014398509481984" 3242591731706757 "-54"] by simp

lemma fl_residue_8: "fl 6 = Fin 6"
  using fl_exact [of "6" 6 "0"] by simp

lemma fl_residue_9: "fl (2026619832316723 / 1125899906842624) = Fin (2026619832316723 / 1125899906842624)"
  using fl_exact [of "2026619832316723 / 1125899906842624" 2026619832316723 "-50"] by simp

lemma fl_residue_10: "fl (9727775195120271 / 36028797018963968) = Fin (607985949695017 / 2251799813685248)"
  using fl_eval_rne [of "-2" "9727775195120271 / 36028797018963968" 4863887597560136] by (simp add: rne_def)

lemma fl_residue_11: "fl (6079859496950169 / 1125899906842624) = Fin (6079859496950169 / 1125899906842624)"
  using fl_exact [of "6079859496950169 / 1125899906842624" 6079859496950169 "-50"] by simp

lemma fl_residue_12: "fl (1823957849085051 / 2251799813685248) = Fin (1823957849085051 / 2251799813685248)"
  using fl_exact [of "1823957849085051 / 2251799813685248" 1823957849085051 "-51"] by simp

lemma fl_residue_13: "fl (4107187944739462450201385458729 / 5070602400912917605986812821504) = Fin (3647915698170101 / 4503599627370496)"
  using fl_eval_rne [of "-1" "4107187944739462450201385458729 / 5070602400912917605986812821504" 7295831396340202] by (simp add: rne_def)

lemma fl_residue_14: "fl (1 / 4503599627370496) = Fin (1 / 4503599627370496)"
  using fl_exact [of "1 / 4503599627370496" 1 "-52"] by simp

lemma fl_residue_15: "fl 2 = Fin 2"
  using fl_exact [of "2" 2 "0"] by simp

lemma multiPoint_residue:
  "multiPoint
     [\<lparr>raw = Fin (5404319552844595 / 18014398509481984), actual = Fin 1\<rparr>,
      \<lparr>raw = Fin (5404319552844595 / 18014398509481984), actual = Fin 2\<rparr>,
      \<lparr>raw = Fin (5404319552844595 / 18014398509481984), actual = Fin 3\<rparr>]
   = Inr \<lparr>gain = Fin 0, offset = Fin 2\<rparr>"
  by (simp add: multiPoint_def Let_def d_add_def d_mul_def d_sub_def d_div_def js_sub_def
        fl_def [of 0] fl_residue_0 fl_residue_1 fl_residue_2 fl_residue_3 fl_residue_4 fl_residue_5 fl_residue_6 fl_residue_7 fl_residue_8 fl_residue_9 fl_residue_10 fl_residue_11 fl_residue_12 fl_residue_13 fl_residue_14 fl_residue_15)

subsection \<open>Response parser\<close>

lemma parseCounts_example:
  "parseCounts ''100 200 300 400 500 600 700 800 0''
     = Inr \<lparr>snapshot_counts = [100, 200, 300, 400, 500, 600, 700, 800], overflow = 0\<rparr>"
  by (simp add: parseCounts_def tokens_def is_space_def digit_val_def)

lemma parse_all_Some: "map parse_int ts = map Some ns \<Longrightarrow> parse_all ts = Some ns"
proof (induction ts arbitrary: ns)
  case Nil
  then show ?case by simp
next
  case (Cons t ts)
  then obtain n ns' where ns: "ns = n # ns'" by (cases ns) auto
  with Cons.prems have "parse_int t = Some n" "map parse_int ts = map Some ns'" by simp_all
  with Cons.IH [of ns'] show ?case by (simp add: ns)
qed

lemma parse_all_None: "parse_all ts = None \<longleftrightarrow> (\<exists>t \<in> set ts. parse_int t = None)"
  by (induction ts) (auto split: option.splits)

section \<open>Properties\<close>

text \<open>
  C1 (as the code has it). \<^verbatim>\<open>accidentalRate\<close> is the product
  \<open>2 * rateA * rateB * w\<close> taken from left to right, each product rounded. While
  \<open>2 * rateA\<close>, \<open>2 * rateA * rateB\<close> and \<open>2 * rateA * rateB * w\<close> lie between \<open>2 ^ - 1021\<close>
  and \<open>2 ^ 1022\<close> it is a finite number within the relative error \<open>2 ^ - 51\<close> of
  \<open>2 * w * rateA * rateB\<close>. \<^verbatim>\<open>trueRate\<close> is the maximum of 0 and the rounded difference
  of the coincidence rate and the accidental rate; it is below 0 for no input, and it is 0
  when the accidental rate is finite and not below the coincidence rate. The accidental
  rate is 0 when a rate or the window is 0 and the products before it are finite.
\<close>

theorem coincidence_correction:
  "\<not> js_lt (trueRate m r1 r2 w) (Fin 0)
   \<and> (accidentalRate r1 r2 w = Fin acc \<longrightarrow>
        trueRate (Fin cr) r1 r2 w = Math_max (Fin 0) (fl (cr - acc)))
   \<and> (accidentalRate r1 r2 w = Fin acc \<and> cr \<le> acc \<longrightarrow> trueRate (Fin cr) r1 r2 w = Fin 0)
   \<and> (2 powi (- 1021) \<le> 2 * a \<and> 2 * a \<le> 2 powi 1022
        \<and> 2 powi (- 1021) \<le> 2 * a * b \<and> 2 * a * b \<le> 2 powi 1022
        \<and> 2 powi (- 1021) \<le> 2 * a * b * win \<and> 2 * a * b * win \<le> 2 powi 1022 \<longrightarrow>
       (\<exists>r. accidentalRate (Fin a) (Fin b) (Fin win) = Fin r
            \<and> \<bar>r - 2 * win * a * b\<bar> \<le> 2 powi (- 51) * (2 * win * a * b)))
   \<and> accidentalRate (Fin 0) (Fin b) (Fin win) = Fin 0
   \<and> (\<bar>2 * a\<bar> < 2 powi 1023 \<longrightarrow> accidentalRate (Fin a) (Fin 0) (Fin win) = Fin 0)
   \<and> (d_mul (d_mul (Fin 2) (Fin a)) (Fin b) = Fin p \<longrightarrow>
        accidentalRate (Fin a) (Fin b) (Fin 0) = Fin 0)"
proof -
  have "accidentalRate r1 r2 w = Fin acc \<longrightarrow>
      trueRate (Fin cr) r1 r2 w = Math_max (Fin 0) (fl (cr - acc))"
    by (simp add: trueRate_def d_sub_def js_sub_def)
  then show ?thesis
    using trueRate_not_negative [of m r1 r2 w] trueRate_clamped [of r1 r2 w acc cr]
      accidentalRate_in_range [of a b win] accidentalRate_zero_first [of b win]
      accidentalRate_zero_second [of a win] accidentalRate_zero_window [of a b p]
    by blast
qed

theorem coincidence_correction_witness:
  "trueRate (Fin 1) (Fin 1) (Fin 1) (Fin 1) = Fin 0
   \<and> \<not> js_lt (trueRate (Fin 1) (Fin 1) (Fin 1) (Fin 1)) (Fin 0)
   \<and> (\<exists>r. accidentalRate (Fin 1) (Fin 1) (Fin 1) = Fin r \<and> \<bar>r - 2\<bar> \<le> 2 powi (- 51) * 2)
   \<and> accidentalRate (Fin 1) (Fin 0) (Fin 1) = Fin 0
   \<and> accidentalRate (Fin 1) (Fin 1) (Fin 0) = Fin 0"
proof -
  note inst = coincidence_correction [of "Fin 1" "Fin 1" "Fin 1" "Fin 1" 2 1 1 1 1 2]
  have acc: "accidentalRate (Fin 1) (Fin 1) (Fin 1) = Fin 2"
    by (simp add: accidentalRate_def d_mul_def fl_small)
  have le: "(1::real) \<le> 2" by simp
  have range: "2 powi (- 1021) \<le> 2 * (1::real) \<and> 2 * (1::real) \<le> 2 powi 1022
        \<and> 2 powi (- 1021) \<le> 2 * (1::real) * 1 \<and> 2 * (1::real) * 1 \<le> 2 powi 1022
        \<and> 2 powi (- 1021) \<le> 2 * (1::real) * 1 * 1 \<and> 2 * (1::real) * 1 * 1 \<le> 2 powi 1022"
    by simp
  have small: "\<bar>2 * (1::real)\<bar> < 2 powi 1023" by simp
  have part: "d_mul (d_mul (Fin 2) (Fin 1)) (Fin 1) = Fin 2"
    by (simp add: d_mul_def fl_small)
  from inst acc le have c1: "trueRate (Fin 1) (Fin 1) (Fin 1) (Fin 1) = Fin 0" by blast
  from inst have c2: "\<not> js_lt (trueRate (Fin 1) (Fin 1) (Fin 1) (Fin 1)) (Fin 0)" by blast
  from inst range have "\<exists>r. accidentalRate (Fin 1) (Fin 1) (Fin 1) = Fin r
      \<and> \<bar>r - 2 * 1 * 1 * 1\<bar> \<le> 2 powi (- 51) * (2 * 1 * 1 * 1)" by blast
  then have c3: "\<exists>r. accidentalRate (Fin 1) (Fin 1) (Fin 1) = Fin r \<and> \<bar>r - 2\<bar> \<le> 2 powi (- 51) * 2"
    by simp
  from inst small have c4: "accidentalRate (Fin 1) (Fin 0) (Fin 1) = Fin 0" by blast
  from inst part have c5: "accidentalRate (Fin 1) (Fin 1) (Fin 0) = Fin 0" by blast
  from c1 c2 c3 c4 c5 show ?thesis by blast
qed

text \<open>
  The claim as written fails: with the rate \<open>2 ^ 1023\<close>, the rate 1 and the window 1/4
  the product \<open>2 * w * rateA * rateB\<close> is \<open>2 ^ 1022\<close>, also when it is taken in that order
  with rounding, but \<open>2 * rateA\<close> overflows and the accidental rate is \<^verbatim>\<open>Infinity\<close>;
  the true rate for the coincidence rate \<open>3 * 2 ^ 1021\<close> is then 0 and not
  \<open>2 ^ 1021\<close>. With the rate 0 in second place the accidental rate is \<^verbatim>\<open>NaN\<close>,
  and so is the true rate. Inside the range, the rates 0.1 and the window 10 give
  0.20000000000000004 where \<open>2 * w * rateA * rateB\<close> is 0.2.
\<close>

theorem coincidence_overflow_counterexample:
  "accidentalRate (Fin (2 ^ 1023)) (Fin 1) (Fin (1 / 4)) = PInf
   \<and> d_mul (d_mul (d_mul (Fin 2) (Fin (1 / 4))) (Fin (2 ^ 1023))) (Fin 1) = Fin (2 ^ 1022)
   \<and> trueRate (Fin (3 * 2 ^ 1021)) (Fin (2 ^ 1023)) (Fin 1) (Fin (1 / 4)) = Fin 0
   \<and> trueRate (Fin 5) (Fin (2 ^ 1023)) (Fin 0) (Fin 1) = NaN
   \<and> accidentalRate (Fin (3602879701896397 / 36028797018963968))
         (Fin (3602879701896397 / 36028797018963968)) (Fin 10)
       = Fin (7205759403792795 / 36028797018963968)
   \<and> d_mul (d_mul (d_mul (Fin 2) (Fin 10)) (Fin (3602879701896397 / 36028797018963968)))
         (Fin (3602879701896397 / 36028797018963968))
       = Fin (3602879701896397 / 18014398509481984)"
  using accidentalRate_overflow claimed_order_finite trueRate_overflow trueRate_NaN
    accidentalRate_order claimed_order
  by (simp only: simp_thms)

text \<open>
  C2 (as the code has it). When the command goes through, the channel passes the range
  test and the second snapshot's count \<open>e\<close> on the channel is below the first one \<open>s\<close>,
  \<^verbatim>\<open>measureRate\<close> does not fail and reports no anomaly: for a duration \<open>d > 0\<close> it
  returns the measurement with the negative delta \<open>e - s\<close> as counts, the negative rate
  \<open>(e - s) / d\<close>, and the uncertainty 0.
\<close>

theorem measureRate_negative_delta:
  assumes ok: "executeCommand dev = (Inr (), dev')"
    and ch: "\<not> js_lt channel (Fin 0)" "\<not> js_gt channel (Fin 7)"
    and start: "count_at (counts dev') channel = Fin s"
    and fin: "count_at counts_after channel = Fin e"
    and delta: "e < s" and d: "0 < d"
  shows "measureRate dev counts_after channel (Fin d) =
     (Inr \<lparr>rm_channel = channel, rm_duration = Fin d, rm_counts = Fin (e - s),
           rm_rate = Fin ((e - s) / d), rm_uncertainty = Fin 0\<rparr>,
      dev'\<lparr>counts := counts_after\<rparr>)
    \<and> (e - s) / d < 0"
proof -
  have "Math_max (Fin 0) (Fin (e - s)) = Fin 0"
    using delta by (auto simp: Math_max_def)
  then show ?thesis
    using assms by (simp add: measureRate_def js_sub_def Let_def divide_neg_pos)
qed

theorem measureRate_negative_delta_witness:
  "measureRate bench_device counts_reset (Fin 0) (Fin 2) =
     (Inr \<lparr>rm_channel = Fin 0, rm_duration = Fin 2, rm_counts = Fin (- 7),
           rm_rate = Fin (- 7 / 2), rm_uncertainty = Fin 0\<rparr>,
      bench_device\<lparr>commandCount := Fin 1, counts := counts_reset\<rparr>)"
  using measureRate_negative_delta [OF executeCommand_bench, of "Fin 0" 10 counts_reset 3 2]
  by (simp add: js_gt_def counts_bench counts_reset_def)

text \<open>
  The claim as written fails: channel 0 falls from 10 to 3 during a wait of one second,
  and the measurement comes back as a result, with the rate -7.
\<close>

theorem measureRate_negative_counterexample:
  "fst (measureRate bench_device counts_reset (Fin 0) (Fin 1))
    = Inr \<lparr>rm_channel = Fin 0, rm_duration = Fin 1, rm_counts = Fin (- 7),
           rm_rate = Fin (- 7), rm_uncertainty = Fin 0\<rparr>"
  by (simp add: measureRate_def executeCommand_bench counts_bench counts_reset_def
        js_sub_def js_gt_def Math_max_def Let_def)

text \<open>
  C3 (as the code has it). \<^verbatim>\<open>multiPoint\<close> fails with the error
  \<^verbatim>\<open>At least 2 calibration points required\<close> when given fewer than two points. Neither
  fitter tests for degenerate input: for two points of equal raw value \<^verbatim>\<open>twoPoint\<close>
  returns a gain that is not a finite number (\<^verbatim>\<open>NaN\<close> or an infinity), and given two
  or more points \<^verbatim>\<open>multiPoint\<close> returns coefficients whatever the raw values are.
\<close>

theorem fitters_on_degenerate_input:
  "(length points < 2 \<longrightarrow>
      multiPoint points = Inl (Error ''At least 2 calibration points required''))
   \<and> (gain (twoPoint \<lparr>raw = Fin r, actual = a1\<rparr> \<lparr>raw = Fin r, actual = a2\<rparr>) = NaN
       \<or> gain (twoPoint \<lparr>raw = Fin r, actual = a1\<rparr> \<lparr>raw = Fin r, actual = a2\<rparr>) = PInf
       \<or> gain (twoPoint \<lparr>raw = Fin r, actual = a1\<rparr> \<lparr>raw = Fin r, actual = a2\<rparr>) = NInf)
   \<and> (2 \<le> length ps \<longrightarrow> (\<exists>c. multiPoint ps = Inr c))"
  using multiPoint_too_few [of points] twoPoint_equal_raw [of r a1 a2] multiPoint_returns [of ps]
  by blast

theorem fitters_on_degenerate_input_witness:
  "multiPoint [\<lparr>raw = Fin 1, actual = Fin 0\<rparr>]
     = Inl (Error ''At least 2 calibration points required'')
   \<and> gain (twoPoint \<lparr>raw = Fin 1, actual = Fin 0\<rparr> \<lparr>raw = Fin 1, actual = Fin 1\<rparr>) = PInf
   \<and> (\<exists>c. multiPoint [\<lparr>raw = Fin 1, actual = Fin 0\<rparr>, \<lparr>raw = Fin 1, actual = Fin 1\<rparr>] = Inr c)"
proof -
  note inst = fitters_on_degenerate_input
    [of "[\<lparr>raw = Fin 1, actual = Fin 0\<rparr>]" 1 "Fin 0" "Fin 1"
        "[\<lparr>raw = Fin 1, actual = Fin 0\<rparr>, \<lparr>raw = Fin 1, actual = Fin 1\<rparr>]"]
  have h1: "length [\<lparr>raw = Fin 1, actual = Fin 0\<rparr>] < 2" by simp
  have h2: "2 \<le> length [\<lparr>raw = Fin 1, actual = Fin 0\<rparr>, \<lparr>raw = Fin 1, actual = Fin 1\<rparr>]"
    by simp
  have g: "gain (twoPoint \<lparr>raw = Fin 1, actual = Fin 0\<rparr> \<lparr>raw = Fin 1, actual = Fin 1\<rparr>) = PInf"
    by (simp add: twoPoint_def js_sub_def Let_def)
  from inst h1 h2 g show ?thesis by blast
qed

text \<open>
  The claim as written fails: on two points of equal raw value both fitters return
  coefficients, where the claim has them fail; and on three points of raw value 0.3
  \<^verbatim>\<open>multiPoint\<close> returns the gain 0 and the offset 2.
\<close>

theorem degenerate_fit_counterexample:
  "twoPoint \<lparr>raw = Fin 1, actual = Fin 0\<rparr> \<lparr>raw = Fin 1, actual = Fin 1\<rparr>
      = \<lparr>gain = PInf, offset = NInf\<rparr>
   \<and> multiPoint [\<lparr>raw = Fin 1, actual = Fin 0\<rparr>, \<lparr>raw = Fin 1, actual = Fin 1\<rparr>]
      = Inr \<lparr>gain = NaN, offset = NaN\<rparr>
   \<and> multiPoint
        [\<lparr>raw = Fin (5404319552844595 / 18014398509481984), actual = Fin 1\<rparr>,
         \<lparr>raw = Fin (5404319552844595 / 18014398509481984), actual = Fin 2\<rparr>,
         \<lparr>raw = Fin (5404319552844595 / 18014398509481984), actual = Fin 3\<rparr>]
      = Inr \<lparr>gain = Fin 0, offset = Fin 2\<rparr>"
proof -
  have "twoPoint \<lparr>raw = Fin 1, actual = Fin 0\<rparr> \<lparr>raw = Fin 1, actual = Fin 1\<rparr>
      = \<lparr>gain = PInf, offset = NInf\<rparr>"
    by (simp add: twoPoint_def js_sub_def Let_def)
  moreover have
    "multiPoint [\<lparr>raw = Fin 1, actual = Fin 0\<rparr>, \<lparr>raw = Fin 1, actual = Fin 1\<rparr>]
      = Inr \<lparr>gain = NaN, offset = NaN\<rparr>"
    by (simp add: multiPoint_def js_sub_def Let_def d_add_def d_mul_def d_sub_def
          d_div_def fl_small fl_def [of 0])
  ultimately show ?thesis using multiPoint_residue by (simp only: simp_thms)
qed



text \<open>
  C5 (as the code has it). Every command of the mock device (\<^verbatim>\<open>getVersion\<close>,
  \<^verbatim>\<open>getCounts\<close>, \<^verbatim>\<open>getSettings\<close>, \<^verbatim>\<open>clearCounts\<close>, \<^verbatim>\<open>measureRate\<close>,
  \<^verbatim>\<open>measureCoincidenceRate\<close>, \<^verbatim>\<open>setRepeat\<close>, \<^verbatim>\<open>toggleRepeat\<close>), invoked while
  \<open>connected\<close> is false, fails with a plain \<^verbatim>\<open>Error\<close> of message
  \<^verbatim>\<open>Device not connected\<close> and leaves the state as it was.
\<close>

theorem not_connected_every_command:
  assumes "\<not> connected dev"
  shows "invoke dev cmd = (Inl (Error ''Device not connected''), dev)"
  using executeCommand_not_connected [OF assms]
  by (cases cmd)
     (simp_all add: tagged_def getVersion_def getCounts_def getSettings_def clearCounts_def
        measureRate_def measureCoincidenceRate_def setRepeat_def toggleRepeat_def)

theorem not_connected_every_command_witness:
  "invoke new_device (MeasureRate counts_grown (Fin 0) (Fin 1))
     = (Inl (Error ''Device not connected''), new_device)"
  using not_connected_every_command [of new_device "MeasureRate counts_grown (Fin 0) (Fin 1)"]
  by (simp add: new_device_def)

text \<open>
  The claim as written fails: what \<^verbatim>\<open>getVersion\<close> throws on a device that is not
  connected is an \<^verbatim>\<open>Error\<close>, not an object of a class \<^verbatim>\<open>NotConnectedError\<close>.
\<close>

theorem not_connected_error_counterexample:
  "fst (invoke new_device GetVersion) = Inl (Error ''Device not connected'')
   \<and> class_name (Error ''Device not connected'') \<noteq> ''NotConnectedError''"
  by (simp add: tagged_def getVersion_def executeCommand_def new_device_def)

text \<open>
  C6. \<^verbatim>\<open>parseCounts\<close> splits the reply on whitespace. Given exactly nine tokens that all
  parse as integers it returns the first eight as the counts and the ninth as the
  overflow flag, as on the reply \<^verbatim>\<open>100 200 300 400 500 600 700 800 0\<close>; given a number
  of tokens other than nine, or a token that does not parse, it fails with
  \<^verbatim>\<open>MalformedResponseError\<close>.
\<close>

theorem parseCounts_spec:
  "parseCounts ''100 200 300 400 500 600 700 800 0''
     = Inr \<lparr>snapshot_counts = [100, 200, 300, 400, 500, 600, 700, 800], overflow = 0\<rparr>
   \<and> (length (tokens line) = 9 \<and> map parse_int (tokens line) = map Some ns \<longrightarrow>
        parseCounts line = Inr \<lparr>snapshot_counts = take 8 ns, overflow = ns ! 8\<rparr>)
   \<and> (length (tokens line) \<noteq> 9 \<or> (\<exists>t \<in> set (tokens line). parse_int t = None) \<longrightarrow>
        parseCounts line = Inl MalformedResponseError)"
proof (intro conjI impI)
  show "parseCounts ''100 200 300 400 500 600 700 800 0''
     = Inr \<lparr>snapshot_counts = [100, 200, 300, 400, 500, 600, 700, 800], overflow = 0\<rparr>"
    by (rule parseCounts_example)
next
  assume "length (tokens line) = 9 \<and> map parse_int (tokens line) = map Some ns"
  then show "parseCounts line = Inr \<lparr>snapshot_counts = take 8 ns, overflow = ns ! 8\<rparr>"
    using parse_all_Some [of "tokens line" ns] by (simp add: parseCounts_def)
next
  assume "length (tokens line) \<noteq> 9 \<or> (\<exists>t \<in> set (tokens line). parse_int t = None)"
  then show "parseCounts line = Inl MalformedResponseError"
    using parse_all_None [of "tokens line"] by (auto simp: parseCounts_def Let_def)
qed

theorem parseCounts_spec_witness:
  "parseCounts ''7 6 5 4 3 2 1 0 1''
     = Inr \<lparr>snapshot_counts = [7, 6, 5, 4, 3, 2, 1, 0], overflow = 1\<rparr>
   \<and> parseCounts ''100 200 300'' = Inl MalformedResponseError
   \<and> parseCounts ''100 200 300 4x0 500 600 700 800 0'' = Inl MalformedResponseError"
  using parseCounts_spec [of "''7 6 5 4 3 2 1 0 1''" "[7, 6, 5, 4, 3, 2, 1, 0, 1]"]
    parseCounts_spec [of "''100 200 300''"]
    parseCounts_spec [of "''100 200 300 4x0 500 600 700 800 0''"]
  by (simp add: tokens_def is_space_def digit_val_def)



text \<open>
  C8. For every voltage \<open>v\<close> from 0 to 4.08 the byte of \<open>v\<close> is accepted by
  \<^verbatim>\<open>byteToVoltage\<close>, and the voltage it gives back differs from \<open>v\<close> by at most one
  step of the converter, 4.08 / 255 = 0.016 V.
\<close>

theorem voltage_round_trip:
  assumes "0 \<le> v" "v \<le> 4.08"
  shows "\<exists>u. byteToVoltage (JNumber (voltageToByte (Fin v))) = Inr (Fin u)
           \<and> \<bar>u - v\<bar> \<le> 4.08 / 255"
proof -
  have v: "v \<le> vmax" using assms(2) vmax_bounds by linarith
  from voltageToByte_mid [OF assms(1) v] obtain b where
    b: "voltageToByte (Fin v) = Fin (of_int b)" "0 \<le> b" "b \<le> 255"
       "\<bar>of_int b - 255 * v / vmax\<bar> \<le> 1 / 2 + 2 powi (- 44)" by blast
  have "0 \<le> real_of_int b" "real_of_int b \<le> 255" using b(2,3) by simp_all
  from byteToVoltage_mid [OF this] obtain u where
    u: "byteToVoltage (JNumber (Fin (of_int b))) = Inr (Fin u)"
       "\<bar>u - of_int b / 255 * vmax\<bar> \<le> 2 powi (- 49)" by blast
  have b4: "\<bar>of_int b - 255 * v / (2296835809958953 / 562949953421312)\<bar>
      \<le> 1 / 2 + 1 / 17592186044416"
    using b(4) by (simp add: vmax_def)
  have u2: "\<bar>u - of_int b / 255 * (2296835809958953 / 562949953421312)\<bar>
      \<le> 1 / 562949953421312"
    using u(2) by (simp add: vmax_def)
  have "\<bar>u - v\<bar> \<le> 4.08 / 255"
    using b4 u2 assms by (simp add: abs_le_iff) argo
  with u(1) b(1) show ?thesis by auto
qed

theorem voltage_round_trip_witness:
  "\<exists>u. byteToVoltage (JNumber (voltageToByte (Fin 1))) = Inr (Fin u)
     \<and> \<bar>u - 1\<bar> \<le> 4.08 / 255"
  using voltage_round_trip [of 1] by simp

text \<open>
  C9 (as the code has it). \<^verbatim>\<open>voltageToByte\<close> has no failing branch. For every number
  other than \<^verbatim>\<open>NaN\<close> it clamps the voltage into the range from 0 to \<open>VOLTAGE_MAX\<close> and
  returns \<^verbatim>\<open>Math.round((clamped / VOLTAGE_MAX) * BYTE_MAX)\<close>, an integer from 0 to 255:
  0 for a number below 0, 255 for a number above \<open>VOLTAGE_MAX\<close>, and for a voltage \<open>x\<close>
  from 0 to 4.08 an integer within \<open>1 / 2 + 2 ^ - 40\<close> of \<open>x / 4.08 * 255\<close> (the quotient and
  the product are rounded before \<^verbatim>\<open>Math.round\<close>, so a value next to a half may go down:
  3 V gives 187). For \<^verbatim>\<open>NaN\<close> it returns \<^verbatim>\<open>NaN\<close>. \<^verbatim>\<open>byteToVoltage\<close> fails with a
  \<^verbatim>\<open>ValidationError\<close> for \<^verbatim>\<open>NaN\<close>, for a number outside 0 to 255 and for a value that
  is not a number, and returns \<^verbatim>\<open>(byte / BYTE_MAX) * VOLTAGE_MAX\<close> otherwise.
\<close>

theorem voltage_byte_conversions:
  "(\<not> isNaN v \<longrightarrow>
      js_le (Fin 0) (clampVoltage v) \<and> js_le (clampVoltage v) VOLTAGE_MAX
      \<and> (\<exists>k. voltageToByte v = Fin (of_int k) \<and> 0 \<le> k \<and> k \<le> 255))
   \<and> voltageToByte v = Math_round (d_mul (d_div (clampVoltage v) VOLTAGE_MAX) BYTE_MAX)
   \<and> (0 \<le> x \<and> x \<le> 4.08 \<longrightarrow>
        (\<exists>k. voltageToByte (Fin x) = Fin (of_int k)
             \<and> \<bar>of_int k - x / 4.08 * 255\<bar> \<le> 1 / 2 + 2 powi (- 40)))
   \<and> (js_lt v (Fin 0) \<longrightarrow> voltageToByte v = Fin 0)
   \<and> (js_lt VOLTAGE_MAX v \<longrightarrow> voltageToByte v = Fin 255)
   \<and> voltageToByte NaN = NaN
   \<and> (isNaN b \<or> js_lt b (Fin 0) \<or> js_lt (Fin 255) b \<longrightarrow>
        (\<exists>m. byteToVoltage (JNumber b) = Inl (ValidationError ''byte'' (JNumber b) m)))
   \<and> ((\<forall>n. j \<noteq> JNumber n) \<longrightarrow>
        (\<exists>m. byteToVoltage j = Inl (ValidationError ''byte'' j m)))
   \<and> (0 \<le> y \<and> y \<le> 255 \<longrightarrow>
        byteToVoltage (JNumber (Fin y)) = Inr (d_mul (d_div (Fin y) BYTE_MAX) VOLTAGE_MAX))"
proof -
  have def: "voltageToByte v = Math_round (d_mul (d_div (clampVoltage v) VOLTAGE_MAX) BYTE_MAX)"
    by (simp add: voltageToByte_def)
  have acc: "0 \<le> y \<and> y \<le> 255 \<longrightarrow>
      byteToVoltage (JNumber (Fin y)) = Inr (d_mul (d_div (Fin y) BYTE_MAX) VOLTAGE_MAX)"
    using byteToVoltage_mid [of y] by auto
  show ?thesis
    using def acc clampVoltage_bounds [of v] voltageToByte_byte [of v] voltageToByte_nearest [of x]
      voltageToByte_low [of v] voltageToByte_high [of v] voltageToByte_NaN
      byteToVoltage_rejects [of b] byteToVoltage_not_number [of j]
    by blast
qed

theorem voltage_byte_conversions_witness:
  "(\<exists>k. voltageToByte (Fin 2) = Fin (of_int k) \<and> \<bar>real_of_int k - 2 / 4.08 * 255\<bar> \<le> 1 / 2 + 2 powi (- 40))
   \<and> voltageToByte (Fin (- 1)) = Fin 0
   \<and> voltageToByte (Fin 5) = Fin 255
   \<and> (\<exists>m. byteToVoltage (JNumber (Fin 256)) = Inl (ValidationError ''byte'' (JNumber (Fin 256)) m))
   \<and> (\<exists>m. byteToVoltage (JString ''128'') = Inl (ValidationError ''byte'' (JString ''128'') m))
   \<and> byteToVoltage (JNumber (Fin 255)) = Inr VOLTAGE_MAX"
proof -
  note low = voltage_byte_conversions [of "Fin (- 1)" 2 "Fin 256" "JString ''128''" 255]
  note high = voltage_byte_conversions [of "Fin 5" 2 "Fin 256" "JString ''128''" 255]
  have h1: "js_lt (Fin (- 1)) (Fin 0)" by simp
  have h2: "(0::real) \<le> 2 \<and> (2::real) \<le> 4.08" by simp
  have h3: "isNaN (Fin 256) \<or> js_lt (Fin 256) (Fin 0) \<or> js_lt (Fin 255) (Fin 256)" by simp
  have h4: "(0::real) \<le> 255 \<and> (255::real) \<le> 255" by simp
  have h5: "js_lt VOLTAGE_MAX (Fin 5)" using vmax_bounds by (simp add: VOLTAGE_MAX_value)
  have h6: "\<forall>n. JString ''128'' \<noteq> JNumber n" by simp
  have one: "fl 1 = Fin 1" using fl_of_int [of 1] by simp
  have e: "d_mul (d_div (Fin 255) BYTE_MAX) VOLTAGE_MAX = VOLTAGE_MAX"
    using fl_exact [of vmax 4593671619917906 "- 50"]
    by (simp add: d_div_def d_mul_def BYTE_MAX_def one VOLTAGE_MAX_value vmax_def)
  have c1: "\<exists>k. voltageToByte (Fin 2) = Fin (of_int k)
      \<and> \<bar>real_of_int k - 2 / 4.08 * 255\<bar> \<le> 1 / 2 + 2 powi (- 40)"
    using low [THEN conjunct2, THEN conjunct2, THEN conjunct1] h2 by (rule mp)
  have c2: "voltageToByte (Fin (- 1)) = Fin 0"
    using low [THEN conjunct2, THEN conjunct2, THEN conjunct2, THEN conjunct1] h1 by (rule mp)
  have c3: "voltageToByte (Fin 5) = Fin 255"
    using high [THEN conjunct2, THEN conjunct2, THEN conjunct2, THEN conjunct2, THEN conjunct1] h5 by (rule mp)
  have c4:
    "\<exists>m. byteToVoltage (JNumber (Fin 256)) = Inl (ValidationError ''byte'' (JNumber (Fin 256)) m)"
    using low [THEN conjunct2, THEN conjunct2, THEN conjunct2, THEN conjunct2, THEN conjunct2, THEN conjunct2, THEN conjunct1] h3 by (rule mp)
  have c5:
    "\<exists>m. byteToVoltage (JString ''128'') = Inl (ValidationError ''byte'' (JString ''128'') m)"
    using low [THEN conjunct2, THEN conjunct2, THEN conjunct2, THEN conjunct2, THEN conjunct2, THEN conjunct2, THEN conjunct2, THEN conjunct1] h6 by (rule mp)
  have "byteToVoltage (JNumber (Fin 255))
      = Inr (d_mul (d_div (Fin 255) BYTE_MAX) VOLTAGE_MAX)"
    using low [THEN conjunct2, THEN conjunct2, THEN conjunct2, THEN conjunct2, THEN conjunct2, THEN conjunct2, THEN conjunct2, THEN conjunct2] h4 by (rule mp)
  then have c6: "byteToVoltage (JNumber (Fin 255)) = Inr VOLTAGE_MAX" unfolding e .
  from c1 c2 c3 c4 c5 c6 show ?thesis by blast
qed

text \<open>
  The claim as written fails: \<^verbatim>\<open>NaN\<close> is a number to \<^verbatim>\<open>voltageToByte\<close>, and it is
  neither clamped nor turned into a byte. And the byte of 3 V is 187, where
  \<open>3 / 4.08 * 255 = 187.5\<close> rounds to 188: the rounded product is 187.49999999999997.
\<close>

theorem voltageToByte_NaN_counterexample:
  "clampVoltage NaN = NaN \<and> voltageToByte NaN = NaN
   \<and> voltageToByte (Fin 3) = Fin 187 \<and> round (3 / 4.08 * 255 :: real) = 188"
proof -
  have "clampVoltage NaN = NaN"
    by (simp add: clampVoltage_def clamp_def Math_max_def Math_min_def)
  moreover have "round (3 / 4.08 * 255 :: real) = 188" by (simp add: round_def)
  ultimately show ?thesis using voltageToByte_NaN voltageToByte_3 by (simp only: simp_thms)
qed

text \<open>
  C10. A stored gain of 0 is falsy and counts as unset: \<^verbatim>\<open>applyCounts\<close> then applies
  the gain 1 and returns the raw count plus the offset of the channel (itself 0 when
  unset or falsy), and \<^verbatim>\<open>getGain\<close> returns \<^verbatim>\<open>null\<close>.
\<close>

theorem applyCounts_falsy_gain:
  assumes "gains p c = Some (Fin 0)"
  shows "applyCounts p c r = js_add r (or_default (offsets p c) (Fin 0))
    \<and> getGain p c = None"
  using assms by (simp add: applyCounts_def getGain_def or_default_def or_null_def)

theorem applyCounts_falsy_gain_witness:
  "applyCounts bench_profile (Fin 3) (Fin 100) = Fin 105
   \<and> getGain bench_profile (Fin 3) = None"
  using applyCounts_falsy_gain [of bench_profile "Fin 3" "Fin 100"]
  by (simp add: bench_profile_def or_default_def)

end
